theory Spec2Isabelle
  imports Main "HOL-Library.Word"
begin

section \<open>The E1.33 monitor: data model\<close>

text \<open>
  The development follows \<^verbatim>\<open>tools/e133/e133-monitor.cpp\<close>. The monitor keeps a hash map
  from IPv4 addresses (as the 32-bit integer \<^verbatim>\<open>IPV4Address::AsInt()\<close> yields) to a
  \<^verbatim>\<open>NodeTCPState\<close>. Pointers are options: \<open>None\<close> is \<^verbatim>\<open>NULL\<close>. Calls into the
  collaborators of the monitor (logging, the select server, the TCP connector, sockets and
  health-checked connections) are recorded, in order, in a trace of events.
\<close>

type_synonym ipv4 = "32 word"

datatype log_level = OLA_LOG_NONE | OLA_LOG_FATAL | OLA_LOG_WARN | OLA_LOG_INFO | OLA_LOG_DEBUG

text \<open>
  A \<^verbatim>\<open>TcpSocket\<close> object: its identity, and the peer address \<^verbatim>\<open>GetPeer\<close> reports for it.
\<close>

record TcpSocket =
  sock_id :: nat
  peer :: ipv4

text \<open>
  An \<^verbatim>\<open>E133HealthCheckedConnection\<close> object as \<^verbatim>\<open>OnTCPConnect\<close> constructs it: its
  identity, the socket pointer it was given, and the map key of the \<^verbatim>\<open>NodeTCPState\<close> bound
  into its unhealthy callback.
\<close>

record E133HealthCheckedConnection =
  hc_id :: nat
  hc_socket :: "TcpSocket option"
  hc_node :: ipv4

record NodeTCPState =
  socket :: "TcpSocket option"
  health_checked_connection :: "E133HealthCheckedConnection option"
  connection_attempts :: "32 word"

text \<open>The constructor \<^verbatim>\<open>NodeTCPState()\<close>.\<close>

definition NodeTCPState_new :: NodeTCPState where
  "NodeTCPState_new =
     \<lparr>socket = None, health_checked_connection = None, connection_attempts = 0\<rparr>"

text \<open>
  The calls the monitor makes on its collaborators. \<open>AddEndpoint ip\<close> is
  \<^verbatim>\<open>m_connector.AddEndpoint(ip, E133_PORT, &m_backoff_policy)\<close>: port and policy are the
  same constants at every call. \<open>Log\<close> carries the level and the fixed head of the message.
\<close>

datatype event =
    Log log_level string
  | AddEndpoint ipv4
  | NewHealthCheck E133HealthCheckedConnection
  | DeleteHealthCheck E133HealthCheckedConnection
  | HeartbeatReceived E133HealthCheckedConnection
  | SocketClose TcpSocket
  | DeleteSocket TcpSocket
  | SetOnClose TcpSocket ipv4
  | SetOnData TcpSocket
  | AddReadDescriptor TcpSocket
  | RemoveReadDescriptor "TcpSocket option"
  | Terminate
  | SlpStart
  | Discover
  | DisplayHelp

text \<open>
  The state of a \<^verbatim>\<open>SimpleE133Monitor\<close>: the map \<^verbatim>\<open>m_ip_map\<close>, the number of
  health-checked connections constructed so far (it names the next one), and the trace.
\<close>

record monitor =
  m_ip_map :: "ipv4 \<rightharpoonup> NodeTCPState"
  hc_allocated :: nat
  trace :: "event list"

definition SimpleE133Monitor :: monitor where
  "SimpleE133Monitor = \<lparr>m_ip_map = Map.empty, hc_allocated = 0, trace = []\<rparr>"

text \<open>A dereference of a null pointer ends the run.\<close>

datatype fault = NullDereference | InvalidNodePointer

text \<open>\<^verbatim>\<open>delete p\<close>: nothing happens for a null pointer.\<close>

definition delete_health_check :: "E133HealthCheckedConnection option \<Rightarrow> event list" where
  "delete_health_check p = (case p of None \<Rightarrow> [] | Some h \<Rightarrow> [DeleteHealthCheck h])"

definition delete_socket :: "TcpSocket option \<Rightarrow> event list" where
  "delete_socket p = (case p of None \<Rightarrow> [] | Some s \<Rightarrow> [DeleteSocket s])"

section \<open>The operations of the monitor\<close>

subsection \<open>\<^verbatim>\<open>AddIP\<close>\<close>

definition AddIP :: "ipv4 \<Rightarrow> monitor \<Rightarrow> monitor" where
  "AddIP ip_address st =
     (case m_ip_map st ip_address of
        Some node_state \<Rightarrow> st
      | None \<Rightarrow>
          (let node_state = NodeTCPState_new;
               node_state = node_state\<lparr>connection_attempts := connection_attempts node_state + 1\<rparr>
           in st\<lparr>m_ip_map := (m_ip_map st)(ip_address \<mapsto> node_state),
                 trace := trace st @
                   [Log OLA_LOG_INFO ''Opening TCP connection to '', AddEndpoint ip_address]\<rparr>))"

subsection \<open>\<^verbatim>\<open>OnTCPConnect\<close>\<close>

text \<open>
  \<open>setup_ok\<close> is what \<^verbatim>\<open>health_checked_connection->Setup()\<close> returns. In the branch for a
  tracked address the code dereferences \<open>socket\<close> on both paths (\<^verbatim>\<open>socket->Close()\<close>,
  \<^verbatim>\<open>socket->SetOnClose(...)\<close>), so a null socket is a fault there.
\<close>

definition OnTCPConnect ::
  "ipv4 \<Rightarrow> 16 word \<Rightarrow> TcpSocket option \<Rightarrow> bool \<Rightarrow> monitor \<Rightarrow> fault + monitor" where
  "OnTCPConnect ip_address port sock setup_ok st =
     (case m_ip_map st ip_address of
        None \<Rightarrow>
          Inr (st\<lparr>trace := trace st @
                 Log OLA_LOG_FATAL ''Unable to locate socket for '' #
                 (case sock of None \<Rightarrow> [] | Some s \<Rightarrow> [SocketClose s, DeleteSocket s])\<rparr>)
      | Some node_state \<Rightarrow>
          (let hc = \<lparr>hc_id = hc_allocated st, hc_socket = sock, hc_node = ip_address\<rparr>;
               st1 = st\<lparr>m_ip_map := (m_ip_map st)(ip_address \<mapsto> node_state\<lparr>socket := sock\<rparr>),
                        hc_allocated := Suc (hc_allocated st),
                        trace := trace st @ [NewHealthCheck hc]\<rparr>
           in if \<not> setup_ok then
                (case sock of
                   None \<Rightarrow> Inl NullDereference
                 | Some s \<Rightarrow>
                     Inr (st1\<lparr>m_ip_map := (m_ip_map st1)(ip_address \<mapsto> node_state\<lparr>socket := None\<rparr>),
                              trace := trace st1 @
                                [Log OLA_LOG_WARN ''Failed to setup heartbeat controller for '',
                                 DeleteHealthCheck hc, SocketClose s, DeleteSocket s]\<rparr>))
              else
                (case sock of
                   None \<Rightarrow> Inl NullDereference
                 | Some s \<Rightarrow>
                     Inr (st1\<lparr>m_ip_map := (m_ip_map st1)(ip_address \<mapsto>
                                  node_state\<lparr>socket := sock, health_checked_connection := Some hc\<rparr>),
                              trace := trace st1 @
                                (if health_checked_connection node_state \<noteq> None
                                 then [Log OLA_LOG_WARN ''pre-existing health_checked_connection for '']
                                 else []) @
                                [SetOnClose s ip_address, SetOnData s, AddReadDescriptor s]\<rparr>))))"

subsection \<open>\<^verbatim>\<open>SocketClosed\<close> and \<^verbatim>\<open>SocketUnhealthy\<close>\<close>

definition SocketClosed :: "ipv4 \<Rightarrow> monitor \<Rightarrow> monitor" where
  "SocketClosed ip_address st =
     (let st0 = st\<lparr>trace := trace st @ [Log OLA_LOG_INFO ''connection to '']\<rparr>
      in case m_ip_map st0 ip_address of
           None \<Rightarrow> st0\<lparr>trace := trace st0 @ [Log OLA_LOG_FATAL ''Unable to locate socket for '']\<rparr>
         | Some node_state \<Rightarrow>
             st0\<lparr>m_ip_map := (m_ip_map st0)(ip_address \<mapsto>
                     node_state\<lparr>health_checked_connection := None, socket := None\<rparr>),
                 trace := trace st0 @
                   delete_health_check (health_checked_connection node_state) @
                   [RemoveReadDescriptor (socket node_state)] @
                   delete_socket (socket node_state) @
                   [Terminate]\<rparr>)"

text \<open>
  \<^verbatim>\<open>SocketUnhealthy\<close> receives a pointer to a \<^verbatim>\<open>NodeTCPState\<close>. Entries are never removed
  from the map, so the pointer is the entry under some key; the model takes the key.
\<close>

definition SocketUnhealthy :: "ipv4 \<Rightarrow> monitor \<Rightarrow> fault + monitor" where
  "SocketUnhealthy k st =
     (case m_ip_map st k of
        None \<Rightarrow> Inl InvalidNodePointer
      | Some node_state \<Rightarrow>
          (let st1 = st\<lparr>m_ip_map := (m_ip_map st)(k \<mapsto>
                          node_state\<lparr>health_checked_connection := None\<rparr>),
                        trace := trace st @ Log OLA_LOG_INFO ''connection went unhealthy'' #
                          delete_health_check (health_checked_connection node_state)\<rparr>
           in case socket node_state of
                None \<Rightarrow> Inl NullDereference
              | Some s \<Rightarrow> Inr (SocketClosed (peer s) st1)))"

subsection \<open>\<^verbatim>\<open>E133DataReceived\<close> and \<^verbatim>\<open>EndpointRequest\<close>\<close>

text \<open>
  \<^verbatim>\<open>TransportHeader\<close> and \<^verbatim>\<open>E133Header\<close> are declared in headers outside the monitor.
  The monitor reads \<^verbatim>\<open>SourceIP()\<close> and \<^verbatim>\<open>Transport()\<close> of the first and compares the
  latter with \<^verbatim>\<open>TransportHeader::TCP\<close>; it only passes the second along.
\<close>

datatype transport_type = TCP | UDP

record TransportHeader =
  SourceIP :: ipv4
  Transport :: transport_type

record E133Header =
  Endpoint :: "16 word"

definition E133DataReceived :: "TransportHeader \<Rightarrow> monitor \<Rightarrow> monitor" where
  "E133DataReceived header st =
     (if Transport header \<noteq> TCP then st
      else case m_ip_map st (SourceIP header) of
             None \<Rightarrow>
               st\<lparr>trace := trace st @
                    [Log OLA_LOG_FATAL ''Received data but unable to lookup socket for '']\<rparr>
           | Some node_state \<Rightarrow>
               (case health_checked_connection node_state of
                  None \<Rightarrow> st
                | Some hc \<Rightarrow> st\<lparr>trace := trace st @ [HeartbeatReceived hc]\<rparr>))"

definition EndpointRequest ::
  "TransportHeader \<Rightarrow> E133Header \<Rightarrow> string \<Rightarrow> monitor \<Rightarrow> monitor" where
  "EndpointRequest transport_header e133_header raw_request st =
     st\<lparr>trace := trace st @ [Log OLA_LOG_INFO ''got message from '']\<rparr>"

subsection \<open>The terminal layer of the dispatch chain\<close>

text \<open>
  A fully decoded frame as the terminal layer sees it: the two headers, whether the frame is
  recognised as a heartbeat frame, and the payload bytes.
\<close>

record frame =
  transport_header :: TransportHeader
  e133_header :: E133Header
  heartbeat :: bool
  raw_request :: string

text \<open>
  Modelled from the spec: the terminal layer (\<^verbatim>\<open>DMPE133Inflator\<close>, which the monitor
  constructs with \<^verbatim>\<open>E133DataReceived\<close> as its callback and with \<^verbatim>\<open>EndpointRequest\<close> as
  the handler of endpoint 0) is not among the sources. The spec: for endpoint 0, a frame
  recognised as a heartbeat frame notifies the health-checked connection of the frame's
  source address and is not forwarded further; any other frame is forwarded to the
  control-payload handler. The notification is \<^verbatim>\<open>E133DataReceived\<close>, the only place of the
  monitor that calls \<^verbatim>\<open>HeartbeatReceived()\<close>; no handler is registered for another
  endpoint.
\<close>

definition TerminalLayer :: "frame \<Rightarrow> monitor \<Rightarrow> monitor" where
  "TerminalLayer f st =
     (if Endpoint (e133_header f) = 0 then
        (if heartbeat f then E133DataReceived (transport_header f) st
         else EndpointRequest (transport_header f) (e133_header f) (raw_request f) st)
      else st)"

subsection \<open>Sequences of operations\<close>

datatype operation =
    CallAddIP ipv4
  | CallOnTCPConnect ipv4 "16 word" "TcpSocket option" bool
  | CallSocketUnhealthy ipv4
  | CallSocketClosed ipv4
  | CallE133DataReceived TransportHeader

fun call :: "operation \<Rightarrow> monitor \<Rightarrow> fault + monitor" where
  "call (CallAddIP ip) st = Inr (AddIP ip st)"
| "call (CallOnTCPConnect ip port sock setup_ok) st = OnTCPConnect ip port sock setup_ok st"
| "call (CallSocketUnhealthy k) st = SocketUnhealthy k st"
| "call (CallSocketClosed ip) st = Inr (SocketClosed ip st)"
| "call (CallE133DataReceived header) st = Inr (E133DataReceived header st)"

fun run :: "operation list \<Rightarrow> monitor \<Rightarrow> fault + monitor" where
  "run [] st = Inr st"
| "run (c # cs) st = (case call c st of Inl e \<Rightarrow> Inl e | Inr st' \<Rightarrow> run cs st')"

text \<open>
  The invariant of one entry: a health-checked connection is attached only to an entry
  that has a socket.
\<close>

definition node_ok :: "NodeTCPState \<Rightarrow> bool" where
  "node_ok node_state =
     (case health_checked_connection node_state of
        None \<Rightarrow> True
      | Some hc \<Rightarrow> socket node_state \<noteq> None)"

text \<open>Every entry of the map satisfies the invariant.\<close>

definition registry_ok :: "monitor \<Rightarrow> bool" where
  "registry_ok st = (\<forall>ip node_state. m_ip_map st ip = Some node_state \<longrightarrow> node_ok node_state)"

text \<open>
  An \<^verbatim>\<open>OnTCPConnect\<close> for an address whose entry still has a socket or a health-checked
  connection attached.
\<close>

fun reattach :: "operation \<Rightarrow> monitor \<Rightarrow> bool" where
  "reattach (CallOnTCPConnect ip port sock setup_ok) st =
     (case m_ip_map st ip of
        None \<Rightarrow> False
      | Some node_state \<Rightarrow>
          socket node_state \<noteq> None \<or> health_checked_connection node_state \<noteq> None)"
| "reattach c st = False"

text \<open>A sequence of operations none of whose steps is a re-attach.\<close>

fun admissible :: "operation list \<Rightarrow> monitor \<Rightarrow> bool" where
  "admissible [] st = True"
| "admissible (c # cs) st =
     (\<not> reattach c st \<and>
      (case call c st of Inl e \<Rightarrow> True | Inr st' \<Rightarrow> admissible cs st'))"

subsection \<open>Live objects\<close>

text \<open>
  The sockets of an address that are live after a trace: those attached to the entry of
  the address (\<^verbatim>\<open>OnTCPConnect\<close> binds the close callback of the socket to the address when
  it attaches it) and not deleted since. The trace is read in order, so a socket deleted
  and attached again is live.
\<close>

fun socket_step :: "ipv4 \<Rightarrow> event \<Rightarrow> TcpSocket list \<Rightarrow> TcpSocket list" where
  "socket_step ip (SetOnClose s a) live = (if a = ip then live @ [s] else live)"
| "socket_step ip (DeleteSocket s) live = removeAll s live"
| "socket_step ip e live = live"

definition live_sockets :: "ipv4 \<Rightarrow> event list \<Rightarrow> TcpSocket list" where
  "live_sockets ip es = fold (socket_step ip) es []"

text \<open>
  The health-checked connections of an address that are live after a trace: those
  constructed for the entry of the address and not deleted since.
\<close>

fun health_check_step ::
  "ipv4 \<Rightarrow> event \<Rightarrow> E133HealthCheckedConnection list \<Rightarrow> E133HealthCheckedConnection list" where
  "health_check_step ip (NewHealthCheck hc) live = (if hc_node hc = ip then live @ [hc] else live)"
| "health_check_step ip (DeleteHealthCheck hc) live = removeAll hc live"
| "health_check_step ip e live = live"

definition live_health_checks :: "ipv4 \<Rightarrow> event list \<Rightarrow> E133HealthCheckedConnection list" where
  "live_health_checks ip es = fold (health_check_step ip) es []"

text \<open>The live objects are at most the one the slot points at.\<close>

fun held_by :: "'a option \<Rightarrow> 'a list \<Rightarrow> bool" where
  "held_by slot [] = True"
| "held_by slot [x] = (slot = Some x)"
| "held_by slot (x # y # zs) = False"

text \<open>The slots of the entry of an address; both are absent when there is no entry.\<close>

definition slot_socket :: "monitor \<Rightarrow> ipv4 \<Rightarrow> TcpSocket option" where
  "slot_socket st ip =
     (case m_ip_map st ip of None \<Rightarrow> None | Some node_state \<Rightarrow> socket node_state)"

definition slot_health_check :: "monitor \<Rightarrow> ipv4 \<Rightarrow> E133HealthCheckedConnection option" where
  "slot_health_check st ip =
     (case m_ip_map st ip of
        None \<Rightarrow> None
      | Some node_state \<Rightarrow> health_checked_connection node_state)"

text \<open>For every address, the live objects are held by the slots of its entry.\<close>

definition tidy :: "monitor \<Rightarrow> bool" where
  "tidy st =
     (\<forall>ip. held_by (slot_socket st ip) (live_sockets ip (trace st))
         \<and> held_by (slot_health_check st ip) (live_health_checks ip (trace st)))"

section \<open>The backoff policy\<close>

text \<open>\<^verbatim>\<open>ola::TimeInterval(sec, usec)\<close>, in microseconds.\<close>

definition TimeInterval :: "int \<Rightarrow> int \<Rightarrow> int" where
  "TimeInterval sec usec = sec * 1000000 + usec"

definition INITIAL_TCP_RETRY_DELAY :: int where
  "INITIAL_TCP_RETRY_DELAY = TimeInterval 5 0"

definition MAX_TCP_RETRY_DELAY :: int where
  "MAX_TCP_RETRY_DELAY = TimeInterval 60 0"

text \<open>
  Modelled from the spec: the body of \<^verbatim>\<open>ola::network::LinearBackoffPolicy\<close>, the type of
  \<^verbatim>\<open>m_backoff_policy\<close>, is not among the sources. The spec gives the policy as a pure
  function of the attempt count and two bounds, typically
  \<^verbatim>\<open>min(initial * 2^(attemptCount-1), maximum)\<close>, with the growth law a parameter of the
  policy. The model has the spec's exponential law and the linear law the type is named
  after.
\<close>

datatype growth_law = Linear | Exponential

fun growth :: "growth_law \<Rightarrow> nat \<Rightarrow> int" where
  "growth Linear attemptCount = int attemptCount"
| "growth Exponential attemptCount = 2 ^ (attemptCount - 1)"

definition NextDelay :: "growth_law \<Rightarrow> int \<Rightarrow> int \<Rightarrow> nat \<Rightarrow> int" where
  "NextDelay law initial maximum attemptCount =
     min (initial * growth law attemptCount) maximum"

text \<open>
  \<^verbatim>\<open>m_backoff_policy(INITIAL_TCP_RETRY_DELAY, MAX_TCP_RETRY_DELAY)\<close>, under either law.
\<close>

definition m_backoff_policy :: "growth_law \<Rightarrow> nat \<Rightarrow> int" where
  "m_backoff_policy law = NextDelay law INITIAL_TCP_RETRY_DELAY MAX_TCP_RETRY_DELAY"

section \<open>Start-up\<close>

record options =
  opt_help :: bool
  opt_log_level :: log_level
  target_addresses :: string
  pid_file :: string

text \<open>
  Modelled from the spec: \<^verbatim>\<open>ola::StringSplit\<close> is not among the sources; the target list is
  comma-separated. The text is cut at every delimiter and empty pieces are kept.
\<close>

fun StringSplit :: "string \<Rightarrow> char \<Rightarrow> string list" where
  "StringSplit [] d = [[]]"
| "StringSplit (c # cs) d =
     (if c = d then [] # StringSplit cs d
      else (case StringSplit cs d of
              [] \<Rightarrow> [[c]]
            | t # ts \<Rightarrow> (c # t) # ts))"

text \<open>
  The loop of \<^verbatim>\<open>main\<close> over the tokens. \<open>FromString\<close> is
  \<^verbatim>\<open>IPV4Address::FromString\<close> (\<open>None\<close> when it returns false). The first token that does
  not parse ends the loop, and the process.
\<close>

fun parse_targets ::
  "(string \<Rightarrow> ipv4 option) \<Rightarrow> string list \<Rightarrow> ipv4 list \<Rightarrow> string + ipv4 list" where
  "parse_targets FromString [] targets = Inr targets"
| "parse_targets FromString (t # ts) targets =
     (case FromString t of
        None \<Rightarrow> Inl t
      | Some ip_address \<Rightarrow> parse_targets FromString ts (targets @ [ip_address]))"

definition Init :: "bool \<Rightarrow> monitor \<Rightarrow> bool \<times> monitor" where
  "Init slp_init_ok st =
     (if \<not> slp_init_ok
      then (False, st\<lparr>trace := trace st @ [Log OLA_LOG_WARN ''SlpThread Init() failed'']\<rparr>)
      else (True, st\<lparr>trace := trace st @ [SlpStart]\<rparr>))"

definition PopulateResponderList :: "monitor \<Rightarrow> monitor" where
  "PopulateResponderList st = st\<lparr>trace := trace st @ [Discover]\<rparr>"

definition EX_OSFILE :: nat where "EX_OSFILE = 72"

definition EX_UNAVAILABLE :: nat where "EX_UNAVAILABLE = 69"

text \<open>
  How \<^verbatim>\<open>main\<close> goes, up to the call of \<^verbatim>\<open>monitor.Run()\<close>: the process has exited with a
  status, after the events given, or the event loop is entered in the state given.
\<close>

datatype outcome = Exit nat "event list" | Run monitor

text \<open>
  \<^verbatim>\<open>main\<close> after \<^verbatim>\<open>ParseOptions\<close>. \<open>pid_helper_init_ok\<close> and \<open>slp_init_ok\<close> are what
  \<^verbatim>\<open>pid_helper.Init()\<close> and \<^verbatim>\<open>m_slp_thread.Init()\<close> return. \<^verbatim>\<open>DisplayHelpAndExit\<close> prints
  the usage and calls \<^verbatim>\<open>exit(0)\<close>.
\<close>

definition main ::
  "(string \<Rightarrow> ipv4 option) \<Rightarrow> bool \<Rightarrow> bool \<Rightarrow> options \<Rightarrow> outcome" where
  "main FromString pid_helper_init_ok slp_init_ok opts =
     (if opt_help opts then Exit 0 [DisplayHelp]
      else
        case (if target_addresses opts \<noteq> []
              then parse_targets FromString (StringSplit (target_addresses opts) CHR '','') []
              else Inr []) of
          Inl t \<Rightarrow> Exit 0 [Log OLA_LOG_WARN ''Invalid address '', DisplayHelp]
        | Inr targets \<Rightarrow>
            if \<not> pid_helper_init_ok then Exit EX_OSFILE []
            else
              (case Init slp_init_ok SimpleE133Monitor of
                 (False, monitor) \<Rightarrow> Exit EX_UNAVAILABLE (trace monitor)
               | (True, monitor) \<Rightarrow>
                   Run (if targets = [] then PopulateResponderList monitor
                        else fold AddIP targets monitor)))"

section \<open>Observations and concrete states\<close>

text \<open>
  What a call added to the trace, and what a sequence of operations leaves behind when it
  starts from a fresh monitor.
\<close>

definition events_since :: "monitor \<Rightarrow> monitor \<Rightarrow> event list" where
  "events_since st st' = drop (length (trace st)) (trace st')"

definition trace_after :: "operation list \<Rightarrow> fault + event list" where
  "trace_after cs = (case run cs SimpleE133Monitor of Inl e \<Rightarrow> Inl e | Inr st \<Rightarrow> Inr (trace st))"

definition entry_after :: "operation list \<Rightarrow> ipv4 \<Rightarrow> fault + NodeTCPState option" where
  "entry_after cs ip = (case run cs SimpleE133Monitor of Inl e \<Rightarrow> Inl e | Inr st \<Rightarrow> Inr (m_ip_map st ip))"

text \<open>The health-checked connections that \<^verbatim>\<open>HeartbeatReceived()\<close> was called on, in order.\<close>

fun heartbeats_received :: "event list \<Rightarrow> E133HealthCheckedConnection list" where
  "heartbeats_received [] = []"
| "heartbeats_received (HeartbeatReceived hc # es) = hc # heartbeats_received es"
| "heartbeats_received (e # es) = heartbeats_received es"

text \<open>How often the handler \<^verbatim>\<open>EndpointRequest\<close> ran: it logs one line per call.\<close>

definition forwarded :: "event list \<Rightarrow> nat" where
  "forwarded es = count_list es (Log OLA_LOG_INFO ''got message from '')"

text \<open>
  A monitor that tracks the addresses 1 and 2 and is connected to 1, with the socket and
  the health-checked connection that got it there.
\<close>

definition example_socket :: TcpSocket where
  "example_socket = \<lparr>sock_id = 0, peer = 1\<rparr>"

definition example_health_check :: E133HealthCheckedConnection where
  "example_health_check = \<lparr>hc_id = 0, hc_socket = Some example_socket, hc_node = 1\<rparr>"

definition example_connected :: monitor where
  "example_connected =
     \<lparr>m_ip_map =
        [1 \<mapsto> \<lparr>socket = Some example_socket,
                health_checked_connection = Some example_health_check,
                connection_attempts = 1\<rparr>,
         2 \<mapsto> \<lparr>socket = None, health_checked_connection = None, connection_attempts = 1\<rparr>],
      hc_allocated = 1,
      trace =
        [Log OLA_LOG_INFO ''Opening TCP connection to '', AddEndpoint 1,
         Log OLA_LOG_INFO ''Opening TCP connection to '', AddEndpoint 2,
         NewHealthCheck example_health_check,
         SetOnClose example_socket 1, SetOnData example_socket,
         AddReadDescriptor example_socket]\<rparr>"

text \<open>
  A parser that knows two addresses, standing for \<^verbatim>\<open>IPV4Address::FromString\<close>, and the
  options \<^verbatim>\<open>main\<close> starts from with a \<^verbatim>\<open>--targets\<close> argument.
\<close>

definition example_FromString :: "string \<Rightarrow> ipv4 option" where
  "example_FromString s =
     (if s = ''10.0.0.1'' then Some 0x0A000001
      else if s = ''10.0.0.2'' then Some 0x0A000002
      else None)"

definition example_options :: "string \<Rightarrow> options" where
  "example_options targets =
     \<lparr>opt_help = False, opt_log_level = OLA_LOG_WARN, target_addresses = targets,
      pid_file = ''pids''\<rparr>"

section \<open>Registry uniqueness\<close>

lemma AddIP_tracked: "m_ip_map (AddIP a st) a \<noteq> None"
  by (simp add: AddIP_def Let_def split: option.splits)

lemma AddIP_again: "AddIP a (AddIP a st) = AddIP a st"
  by (simp add: AddIP_def Let_def split: option.splits)

lemma AddIP_repeated: "(AddIP a ^^ Suc n) st = AddIP a st"
  by (induction n) (simp_all add: AddIP_again)

lemma AddIP_dom: "dom (m_ip_map (AddIP a st)) = insert a (dom (m_ip_map st))"
  by (auto simp add: AddIP_def Let_def split: option.splits)

text \<open>
  C4. However often \<^verbatim>\<open>AddIP\<close> is called with one address, the result is that of the first
  call: the later calls change nothing, neither the map nor the trace, so they create no
  entry and ask the connector for nothing. The address is a key of the map afterwards and
  no other key is new; on a fresh monitor the map has exactly this one entry, created by
  the constructor and one increment of the attempt count, and the connector has been asked
  once.
\<close>

theorem AddIP_registry_uniqueness:
  "(AddIP a ^^ Suc n) st = AddIP a st
   \<and> dom (m_ip_map ((AddIP a ^^ Suc n) st)) = insert a (dom (m_ip_map st))
   \<and> m_ip_map ((AddIP a ^^ Suc n) SimpleE133Monitor) =
       [a \<mapsto> \<lparr>socket = None, health_checked_connection = None, connection_attempts = 1\<rparr>]
   \<and> filter (\<lambda>e. e = AddEndpoint a) (trace ((AddIP a ^^ Suc n) SimpleE133Monitor)) =
       [AddEndpoint a]"
proof -
  have once: "(AddIP a ^^ Suc n) st = AddIP a st" for st
    by (rule AddIP_repeated)
  have fresh: "AddIP a SimpleE133Monitor =
      \<lparr>m_ip_map = [a \<mapsto> \<lparr>socket = None, health_checked_connection = None,
                           connection_attempts = 1\<rparr>],
       hc_allocated = 0,
       trace = [Log OLA_LOG_INFO ''Opening TCP connection to '', AddEndpoint a]\<rparr>"
    by (simp add: AddIP_def SimpleE133Monitor_def NodeTCPState_new_def)
  show ?thesis
    unfolding once by (simp add: AddIP_dom fresh)
qed

lemma example_connected_reached:
  "run [CallAddIP 1, CallAddIP 2, CallOnTCPConnect 1 5569 (Some example_socket) True]
     SimpleE133Monitor = Inr example_connected"
  by (simp add: AddIP_def OnTCPConnect_def SimpleE133Monitor_def NodeTCPState_new_def Let_def
      example_connected_def example_health_check_def fun_upd_twist)

section \<open>Teardown\<close>

lemma events_since_append [simp]: "events_since st (st'\<lparr>trace := trace st @ es\<rparr>) = es"
  by (simp add: events_since_def)

lemma SocketClosed_tracked:
  assumes "m_ip_map st a = Some node"
  shows "SocketClosed a st =
     st\<lparr>m_ip_map := (m_ip_map st)(a \<mapsto> node\<lparr>health_checked_connection := None, socket := None\<rparr>),
        trace := trace st @ Log OLA_LOG_INFO ''connection to '' #
           delete_health_check (health_checked_connection node) @
           RemoveReadDescriptor (socket node) # delete_socket (socket node) @ [Terminate]\<rparr>"
  using assms by (simp add: SocketClosed_def Let_def)

text \<open>
  C1, as the code has it. \<^verbatim>\<open>SocketClosed\<close> for a tracked address clears the health-check
  and the socket slot of that entry (deleting what they held) and leaves every other entry
  as it was; it then tells the select server to terminate and makes no call to the
  connector: no \<^verbatim>\<open>AddEndpoint\<close> follows the teardown, for this address or any other.
  \<^verbatim>\<open>SocketUnhealthy\<close> for an entry whose socket reports the entry's own address as its peer
  does the same, after deleting the health-checked connection itself.
\<close>

theorem SocketClosed_no_reconnect:
  assumes "m_ip_map st a = Some node"
  shows "m_ip_map (SocketClosed a st) a =
           Some (node\<lparr>health_checked_connection := None, socket := None\<rparr>)
       \<and> (\<forall>b. b \<noteq> a \<longrightarrow> m_ip_map (SocketClosed a st) b = m_ip_map st b)
       \<and> events_since st (SocketClosed a st) =
           Log OLA_LOG_INFO ''connection to '' #
           delete_health_check (health_checked_connection node) @
           RemoveReadDescriptor (socket node) # delete_socket (socket node) @ [Terminate]
       \<and> (\<forall>x. AddEndpoint x \<notin> set (events_since st (SocketClosed a st)))
       \<and> (\<forall>s. socket node = Some s \<and> peer s = a \<longrightarrow>
            (\<exists>st'. SocketUnhealthy a st = Inr st'
               \<and> m_ip_map st' = m_ip_map (SocketClosed a st)
               \<and> events_since st st' =
                   Log OLA_LOG_INFO ''connection went unhealthy'' #
                   delete_health_check (health_checked_connection node) @
                   [Log OLA_LOG_INFO ''connection to '', RemoveReadDescriptor (Some s),
                    DeleteSocket s, Terminate]
               \<and> (\<forall>x. AddEndpoint x \<notin> set (events_since st st'))))"
proof -
  note closed = SocketClosed_tracked [OF assms]
  have entry: "m_ip_map (SocketClosed a st) a =
      Some (node\<lparr>health_checked_connection := None, socket := None\<rparr>)"
    by (simp add: closed)
  have others: "\<forall>b. b \<noteq> a \<longrightarrow> m_ip_map (SocketClosed a st) b = m_ip_map st b"
    by (simp add: closed)
  have events: "events_since st (SocketClosed a st) =
      Log OLA_LOG_INFO ''connection to '' #
      delete_health_check (health_checked_connection node) @
      RemoveReadDescriptor (socket node) # delete_socket (socket node) @ [Terminate]"
    by (simp add: closed)
  have quiet: "\<forall>x. AddEndpoint x \<notin> set (events_since st (SocketClosed a st))"
    unfolding events
    by (auto simp add: delete_health_check_def delete_socket_def split: option.splits)
  have unhealthy: "\<exists>st'. SocketUnhealthy a st = Inr st'
       \<and> m_ip_map st' = m_ip_map (SocketClosed a st)
       \<and> events_since st st' =
           Log OLA_LOG_INFO ''connection went unhealthy'' #
           delete_health_check (health_checked_connection node) @
           [Log OLA_LOG_INFO ''connection to '', RemoveReadDescriptor (Some s),
            DeleteSocket s, Terminate]
       \<and> (\<forall>x. AddEndpoint x \<notin> set (events_since st st'))"
    if s: "socket node = Some s" "peer s = a" for s
  proof -
    let ?st1 = "st\<lparr>m_ip_map := (m_ip_map st)(a \<mapsto> node\<lparr>health_checked_connection := None\<rparr>),
                   trace := trace st @ Log OLA_LOG_INFO ''connection went unhealthy'' #
                     delete_health_check (health_checked_connection node)\<rparr>"
    have run: "SocketUnhealthy a st = Inr (SocketClosed a ?st1)"
      using assms s by (simp add: SocketUnhealthy_def Let_def)
    have tracked: "m_ip_map ?st1 a = Some (node\<lparr>health_checked_connection := None\<rparr>)"
      by simp
    note closed1 = SocketClosed_tracked [OF tracked]
    have map_eq: "m_ip_map (SocketClosed a ?st1) = m_ip_map (SocketClosed a st)"
      unfolding closed1 closed by simp
    have ev: "events_since st (SocketClosed a ?st1) =
        Log OLA_LOG_INFO ''connection went unhealthy'' #
        delete_health_check (health_checked_connection node) @
        [Log OLA_LOG_INFO ''connection to '', RemoveReadDescriptor (Some s),
         DeleteSocket s, Terminate]"
      unfolding closed1 using s
      by (simp add: events_since_def delete_health_check_def delete_socket_def)
    have "\<forall>x. AddEndpoint x \<notin> set (events_since st (SocketClosed a ?st1))"
      unfolding ev by (auto simp add: delete_health_check_def split: option.splits)
    with run map_eq ev show ?thesis by simp
  qed
  from entry others events quiet unhealthy show ?thesis by blast
qed


theorem SocketClosed_no_reconnect_witness:
  "m_ip_map example_connected 1 =
     Some \<lparr>socket = Some example_socket,
           health_checked_connection = Some example_health_check,
           connection_attempts = 1\<rparr>
   \<and> m_ip_map (SocketClosed 1 example_connected) 1 =
       Some \<lparr>socket = None, health_checked_connection = None, connection_attempts = 1\<rparr>
   \<and> m_ip_map (SocketClosed 1 example_connected) 2 = m_ip_map example_connected 2
   \<and> events_since example_connected (SocketClosed 1 example_connected) =
       [Log OLA_LOG_INFO ''connection to '', DeleteHealthCheck example_health_check,
        RemoveReadDescriptor (Some example_socket), DeleteSocket example_socket, Terminate]
   \<and> (\<exists>st'. SocketUnhealthy 1 example_connected = Inr st'
         \<and> events_since example_connected st' =
             [Log OLA_LOG_INFO ''connection went unhealthy'',
              DeleteHealthCheck example_health_check,
              Log OLA_LOG_INFO ''connection to '', RemoveReadDescriptor (Some example_socket),
              DeleteSocket example_socket, Terminate])"
proof -
  have tracked: "m_ip_map example_connected 1 =
      Some \<lparr>socket = Some example_socket,
            health_checked_connection = Some example_health_check,
            connection_attempts = 1\<rparr>"
    by (simp add: example_connected_def)
  have peer: "peer example_socket = 1"
    by (simp add: example_socket_def)
  from SocketClosed_no_reconnect [OF tracked] peer tracked show ?thesis
    by (auto simp add: delete_health_check_def delete_socket_def)
qed

text \<open>
  Against C1 as stated: the monitor tracks 1 and 2 and is connected to 1. When the
  connection to 1 goes unhealthy, or is closed, the trace ends with the teardown and
  \<^verbatim>\<open>Terminate\<close>; the only \<^verbatim>\<open>AddEndpoint\<close> for 1 is the one \<^verbatim>\<open>AddIP\<close> made.
\<close>

theorem reconnect_counterexample:
  "trace_after [CallAddIP 1, CallAddIP 2, CallOnTCPConnect 1 5569 (Some example_socket) True,
                CallSocketUnhealthy 1] =
     Inr (trace example_connected @
          [Log OLA_LOG_INFO ''connection went unhealthy'',
           DeleteHealthCheck example_health_check,
           Log OLA_LOG_INFO ''connection to '', RemoveReadDescriptor (Some example_socket),
           DeleteSocket example_socket, Terminate])
   \<and> trace_after [CallAddIP 1, CallAddIP 2, CallOnTCPConnect 1 5569 (Some example_socket) True,
                CallSocketClosed 1] =
     Inr (trace example_connected @
          [Log OLA_LOG_INFO ''connection to '', DeleteHealthCheck example_health_check,
           RemoveReadDescriptor (Some example_socket), DeleteSocket example_socket, Terminate])
   \<and> count_list (trace example_connected) (AddEndpoint 1) = 1"
  by (simp add: trace_after_def AddIP_def OnTCPConnect_def SocketUnhealthy_def SocketClosed_def
      SimpleE133Monitor_def NodeTCPState_new_def delete_health_check_def delete_socket_def
      Let_def example_connected_def example_health_check_def example_socket_def)

section \<open>Connections\<close>

text \<open>
  C5. \<^verbatim>\<open>OnTCPConnect\<close> for an address without an entry returns normally, whatever
  \<^verbatim>\<open>Setup()\<close> would have answered: the map is unchanged, and after the fatal log line the
  socket delivered is closed and deleted (nothing is done for a null socket). The select
  server is not told to terminate.
\<close>

theorem OnTCPConnect_untracked:
  assumes "m_ip_map st ip = None"
  shows "\<exists>st'. OnTCPConnect ip port sock setup_ok st = Inr st'
      \<and> m_ip_map st' = m_ip_map st
      \<and> events_since st st' =
          Log OLA_LOG_FATAL ''Unable to locate socket for '' #
          (case sock of None \<Rightarrow> [] | Some s \<Rightarrow> [SocketClose s, DeleteSocket s])
      \<and> Terminate \<notin> set (events_since st st')"
  using assms by (simp add: OnTCPConnect_def split: option.splits)

theorem OnTCPConnect_untracked_witness:
  "m_ip_map example_connected 3 = None
   \<and> (\<exists>st'. OnTCPConnect 3 5569 (Some \<lparr>sock_id = 1, peer = 3\<rparr>) True example_connected = Inr st'
        \<and> m_ip_map st' = m_ip_map example_connected
        \<and> events_since example_connected st' =
            [Log OLA_LOG_FATAL ''Unable to locate socket for '',
             SocketClose \<lparr>sock_id = 1, peer = 3\<rparr>, DeleteSocket \<lparr>sock_id = 1, peer = 3\<rparr>])"
proof -
  have untracked: "m_ip_map example_connected 3 = None"
    by (simp add: example_connected_def)
  from OnTCPConnect_untracked [OF untracked, of 5569 "Some \<lparr>sock_id = 1, peer = 3\<rparr>" True]
    untracked show ?thesis
    by auto
qed

text \<open>
  C6, as the code has it. When \<^verbatim>\<open>Setup()\<close> fails for a socket connected to a tracked
  address, \<^verbatim>\<open>OnTCPConnect\<close> returns normally after tearing down what it was given: the
  new health-checked connection is deleted, the socket is closed and deleted, and the
  entry stays in the map with its socket slot absent. The health-check slot and the attempt
  count of the entry are what they were before the call, so the health-check slot is absent
  if nothing was attached before. No other entry changes.
\<close>

theorem OnTCPConnect_setup_failure:
  assumes "m_ip_map st ip = Some node"
  shows "\<exists>st'. OnTCPConnect ip port (Some s) False st = Inr st'
      \<and> m_ip_map st' = (m_ip_map st)(ip \<mapsto> node\<lparr>socket := None\<rparr>)
      \<and> events_since st st' =
          [NewHealthCheck \<lparr>hc_id = hc_allocated st, hc_socket = Some s, hc_node = ip\<rparr>,
           Log OLA_LOG_WARN ''Failed to setup heartbeat controller for '',
           DeleteHealthCheck \<lparr>hc_id = hc_allocated st, hc_socket = Some s, hc_node = ip\<rparr>,
           SocketClose s, DeleteSocket s]
      \<and> (\<exists>node'. m_ip_map st' ip = Some node'
            \<and> socket node' = None
            \<and> health_checked_connection node' = health_checked_connection node
            \<and> connection_attempts node' = connection_attempts node)"
  using assms by (simp add: OnTCPConnect_def Let_def events_since_def)

theorem OnTCPConnect_setup_failure_witness:
  "m_ip_map example_connected 2 =
     Some \<lparr>socket = None, health_checked_connection = None, connection_attempts = 1\<rparr>
   \<and> (\<exists>st'. OnTCPConnect 2 5569 (Some \<lparr>sock_id = 1, peer = 2\<rparr>) False example_connected = Inr st'
        \<and> m_ip_map st' 2 =
            Some \<lparr>socket = None, health_checked_connection = None, connection_attempts = 1\<rparr>
        \<and> m_ip_map st' 1 = m_ip_map example_connected 1
        \<and> events_since example_connected st' =
            [NewHealthCheck \<lparr>hc_id = 1, hc_socket = Some \<lparr>sock_id = 1, peer = 2\<rparr>, hc_node = 2\<rparr>,
             Log OLA_LOG_WARN ''Failed to setup heartbeat controller for '',
             DeleteHealthCheck \<lparr>hc_id = 1, hc_socket = Some \<lparr>sock_id = 1, peer = 2\<rparr>, hc_node = 2\<rparr>,
             SocketClose \<lparr>sock_id = 1, peer = 2\<rparr>, DeleteSocket \<lparr>sock_id = 1, peer = 2\<rparr>])"
proof -
  have idle: "m_ip_map example_connected 2 =
      Some \<lparr>socket = None, health_checked_connection = None, connection_attempts = 1\<rparr>"
    by (simp add: example_connected_def)
  have count: "hc_allocated example_connected = 1"
    by (simp add: example_connected_def)
  from OnTCPConnect_setup_failure [OF idle, of 5569 "\<lparr>sock_id = 1, peer = 2\<rparr>"] idle count
  show ?thesis by auto
qed

text \<open>
  Against C6 as stated: the monitor is connected to 1 and \<^verbatim>\<open>OnTCPConnect\<close> is delivered
  for 1 again, with a \<^verbatim>\<open>Setup()\<close> that fails. The entry is left with no socket and with
  the health-checked connection of the first connection still attached.
\<close>

theorem setup_failure_counterexample:
  "entry_after [CallAddIP 1, CallAddIP 2, CallOnTCPConnect 1 5569 (Some example_socket) True,
                CallOnTCPConnect 1 5569 (Some \<lparr>sock_id = 1, peer = 1\<rparr>) False] 1 =
     Inr (Some \<lparr>socket = None, health_checked_connection = Some example_health_check,
                connection_attempts = 1\<rparr>)"
  by (simp add: entry_after_def AddIP_def OnTCPConnect_def SimpleE133Monitor_def
      NodeTCPState_new_def Let_def example_health_check_def)

text \<open>
  C7, as the code has it. When \<^verbatim>\<open>OnTCPConnect\<close>, with a \<^verbatim>\<open>Setup()\<close> that succeeds, finds
  a health-checked connection already attached to the entry, it logs one line at the
  warning level, attaches the new socket and the new health-checked connection in place of
  the old ones and returns normally. The old health-checked connection is not deleted
  (the message of the code says that it leaks), and the select server is not told to
  terminate.
\<close>

theorem OnTCPConnect_preexisting_health_check:
  assumes "m_ip_map st ip = Some node" and "health_checked_connection node = Some old"
  shows "\<exists>st'. OnTCPConnect ip port (Some s) True st = Inr st'
      \<and> events_since st st' =
          [NewHealthCheck \<lparr>hc_id = hc_allocated st, hc_socket = Some s, hc_node = ip\<rparr>,
           Log OLA_LOG_WARN ''pre-existing health_checked_connection for '',
           SetOnClose s ip, SetOnData s, AddReadDescriptor s]
      \<and> m_ip_map st' = (m_ip_map st)(ip \<mapsto> node
            \<lparr>socket := Some s,
             health_checked_connection :=
               Some \<lparr>hc_id = hc_allocated st, hc_socket = Some s, hc_node = ip\<rparr>\<rparr>)
      \<and> DeleteHealthCheck old \<notin> set (events_since st st')
      \<and> Terminate \<notin> set (events_since st st')"
  using assms by (simp add: OnTCPConnect_def Let_def events_since_def)

theorem OnTCPConnect_preexisting_health_check_witness:
  "m_ip_map example_connected 1 =
     Some \<lparr>socket = Some example_socket,
           health_checked_connection = Some example_health_check,
           connection_attempts = 1\<rparr>
   \<and> (\<exists>st'. OnTCPConnect 1 5569 (Some \<lparr>sock_id = 1, peer = 1\<rparr>) True example_connected = Inr st'
        \<and> events_since example_connected st' =
            [NewHealthCheck \<lparr>hc_id = 1, hc_socket = Some \<lparr>sock_id = 1, peer = 1\<rparr>, hc_node = 1\<rparr>,
             Log OLA_LOG_WARN ''pre-existing health_checked_connection for '',
             SetOnClose \<lparr>sock_id = 1, peer = 1\<rparr> 1, SetOnData \<lparr>sock_id = 1, peer = 1\<rparr>,
             AddReadDescriptor \<lparr>sock_id = 1, peer = 1\<rparr>]
        \<and> m_ip_map st' 1 =
            Some \<lparr>socket = Some \<lparr>sock_id = 1, peer = 1\<rparr>,
                  health_checked_connection =
                    Some \<lparr>hc_id = 1, hc_socket = Some \<lparr>sock_id = 1, peer = 1\<rparr>, hc_node = 1\<rparr>,
                  connection_attempts = 1\<rparr>)"
proof -
  have tracked: "m_ip_map example_connected 1 =
      Some \<lparr>socket = Some example_socket,
            health_checked_connection = Some example_health_check,
            connection_attempts = 1\<rparr>"
    by (simp add: example_connected_def)
  have count: "hc_allocated example_connected = 1"
    by (simp add: example_connected_def)
  from OnTCPConnect_preexisting_health_check
         [OF tracked, of example_health_check 5569 "\<lparr>sock_id = 1, peer = 1\<rparr>"] tracked count
  show ?thesis by auto
qed

text \<open>
  Against C7 as stated: two successful connections to address 1 in a row. The whole trace
  has no line at the fatal level, and neither the first health-checked connection nor the
  first socket is ever closed or deleted, although the entry no longer points at them.
\<close>

theorem preexisting_health_check_counterexample:
  "trace_after [CallAddIP 1, CallOnTCPConnect 1 5569 (Some example_socket) True,
                CallOnTCPConnect 1 5569 (Some \<lparr>sock_id = 1, peer = 1\<rparr>) True] =
     Inr [Log OLA_LOG_INFO ''Opening TCP connection to '', AddEndpoint 1,
          NewHealthCheck example_health_check,
          SetOnClose example_socket 1, SetOnData example_socket,
          AddReadDescriptor example_socket,
          NewHealthCheck \<lparr>hc_id = 1, hc_socket = Some \<lparr>sock_id = 1, peer = 1\<rparr>, hc_node = 1\<rparr>,
          Log OLA_LOG_WARN ''pre-existing health_checked_connection for '',
          SetOnClose \<lparr>sock_id = 1, peer = 1\<rparr> 1, SetOnData \<lparr>sock_id = 1, peer = 1\<rparr>,
          AddReadDescriptor \<lparr>sock_id = 1, peer = 1\<rparr>]
   \<and> entry_after [CallAddIP 1, CallOnTCPConnect 1 5569 (Some example_socket) True,
                CallOnTCPConnect 1 5569 (Some \<lparr>sock_id = 1, peer = 1\<rparr>) True] 1 =
     Inr (Some \<lparr>socket = Some \<lparr>sock_id = 1, peer = 1\<rparr>,
                health_checked_connection =
                  Some \<lparr>hc_id = 1, hc_socket = Some \<lparr>sock_id = 1, peer = 1\<rparr>, hc_node = 1\<rparr>,
                connection_attempts = 1\<rparr>)"
  by (simp add: trace_after_def entry_after_def AddIP_def OnTCPConnect_def SimpleE133Monitor_def
      NodeTCPState_new_def Let_def example_health_check_def)

section \<open>The invariant of the registry\<close>

lemma registry_ok_fresh: "registry_ok SimpleE133Monitor"
  by (simp add: registry_ok_def SimpleE133Monitor_def)

lemma registry_okI:
  "(\<And>ip node_state. m_ip_map st ip = Some node_state \<Longrightarrow> node_ok node_state) \<Longrightarrow> registry_ok st"
  by (simp add: registry_ok_def)

lemma registry_okD: "registry_ok st \<Longrightarrow> m_ip_map st ip = Some node_state \<Longrightarrow> node_ok node_state"
  by (simp add: registry_ok_def)

lemma node_ok_new: "node_ok (NodeTCPState_new\<lparr>connection_attempts := n\<rparr>)"
  by (simp add: node_ok_def NodeTCPState_new_def)

lemma node_ok_reset: "node_ok (node_state\<lparr>health_checked_connection := None, socket := None\<rparr>)"
  by (simp add: node_ok_def)

lemma node_ok_detached: "node_ok (node_state\<lparr>health_checked_connection := None\<rparr>)"
  by (simp add: node_ok_def)

lemma node_ok_attached:
  "node_ok (node_state\<lparr>socket := Some s, health_checked_connection := Some hc\<rparr>)"
  by (simp add: node_ok_def)

lemma node_ok_no_socket:
  "health_checked_connection node_state = None \<Longrightarrow> node_ok (node_state\<lparr>socket := None\<rparr>)"
  by (simp add: node_ok_def)

lemma registry_ok_same:
  "registry_ok st \<Longrightarrow> m_ip_map st' = m_ip_map st \<Longrightarrow> registry_ok st'"
  by (simp add: registry_ok_def)

lemma registry_ok_update:
  "registry_ok st \<Longrightarrow> node_ok node_state \<Longrightarrow>
   m_ip_map st' = (m_ip_map st)(ip \<mapsto> node_state) \<Longrightarrow> registry_ok st'"
  by (rule registry_okI) (auto dest: registry_okD split: if_splits)

lemma registry_ok_AddIP: "registry_ok st \<Longrightarrow> registry_ok (AddIP ip st)"
proof (cases "m_ip_map st ip")
  case None
  assume ok: "registry_ok st"
  from None have "m_ip_map (AddIP ip st) =
      (m_ip_map st)(ip \<mapsto> NodeTCPState_new\<lparr>connection_attempts := connection_attempts NodeTCPState_new + 1\<rparr>)"
    by (simp add: AddIP_def Let_def)
  with ok node_ok_new show ?thesis
    by (rule registry_ok_update)
next
  case (Some node_state)
  assume "registry_ok st"
  with Some show ?thesis
    by (simp add: AddIP_def)
qed

lemma registry_ok_SocketClosed: "registry_ok st \<Longrightarrow> registry_ok (SocketClosed ip st)"
proof (cases "m_ip_map st ip")
  case None
  assume ok: "registry_ok st"
  from None have "m_ip_map (SocketClosed ip st) = m_ip_map st"
    by (simp add: SocketClosed_def Let_def)
  with ok show ?thesis
    by (rule registry_ok_same)
next
  case (Some node_state)
  assume ok: "registry_ok st"
  from Some have "m_ip_map (SocketClosed ip st) =
      (m_ip_map st)(ip \<mapsto> node_state\<lparr>health_checked_connection := None, socket := None\<rparr>)"
    by (simp add: SocketClosed_def Let_def)
  with ok node_ok_reset show ?thesis
    by (rule registry_ok_update)
qed

lemma E133DataReceived_map: "m_ip_map (E133DataReceived header st) = m_ip_map st"
  by (simp add: E133DataReceived_def split: option.splits)

lemma registry_ok_E133DataReceived: "registry_ok st \<Longrightarrow> registry_ok (E133DataReceived header st)"
  by (rule registry_ok_same) (simp_all add: E133DataReceived_map)

lemma registry_ok_SocketUnhealthy:
  assumes "registry_ok st" and "SocketUnhealthy k st = Inr st'"
  shows "registry_ok st'"
proof (cases "m_ip_map st k")
  case None
  with assms(2) show ?thesis
    by (simp add: SocketUnhealthy_def)
next
  case node: (Some node_state)
  show ?thesis
  proof (cases "socket node_state")
    case None
    with node assms(2) show ?thesis
      by (simp add: SocketUnhealthy_def Let_def)
  next
    case (Some s)
    let ?st1 = "st\<lparr>m_ip_map := (m_ip_map st)(k \<mapsto> node_state\<lparr>health_checked_connection := None\<rparr>),
            trace := trace st @ Log OLA_LOG_INFO ''connection went unhealthy'' #
              delete_health_check (health_checked_connection node_state)\<rparr>"
    from Some node assms(2) have st': "st' = SocketClosed (peer s) ?st1"
      by (simp add: SocketUnhealthy_def Let_def)
    have "m_ip_map ?st1 = (m_ip_map st)(k \<mapsto> node_state\<lparr>health_checked_connection := None\<rparr>)"
      by simp
    with assms(1) node_ok_detached have "registry_ok ?st1"
      by (rule registry_ok_update)
    then show ?thesis
      unfolding st' by (rule registry_ok_SocketClosed)
  qed
qed

lemma registry_ok_OnTCPConnect:
  assumes "registry_ok st" and "OnTCPConnect ip port sock setup_ok st = Inr st'"
    and "\<not> reattach (CallOnTCPConnect ip port sock setup_ok) st"
  shows "registry_ok st'"
proof (cases "m_ip_map st ip")
  case None
  with assms(2) have "m_ip_map st' = m_ip_map st"
    by (auto simp add: OnTCPConnect_def)
  with assms(1) show ?thesis
    by (rule registry_ok_same)
next
  case node: (Some node_state)
  show ?thesis
  proof (cases sock)
    case None
    with node assms(2) show ?thesis
      by (simp add: OnTCPConnect_def Let_def split: if_splits)
  next
    case (Some s)
    show ?thesis
    proof (cases setup_ok)
      case True
      with node Some assms(2) have
        "m_ip_map st' = (m_ip_map st)(ip \<mapsto>
                  node_state\<lparr>socket := Some s,
                    health_checked_connection :=
                      Some \<lparr>hc_id = hc_allocated st, hc_socket = Some s, hc_node = ip\<rparr>\<rparr>)"
        by (auto simp add: OnTCPConnect_def Let_def)
      with assms(1) node_ok_attached show ?thesis
        by (rule registry_ok_update)
    next
      case False
      from node assms(3) have none: "health_checked_connection node_state = None"
        by simp
      from False node Some assms(2) have
        "m_ip_map st' = (m_ip_map st)(ip \<mapsto> node_state\<lparr>socket := None\<rparr>)"
        by (auto simp add: OnTCPConnect_def Let_def)
      with assms(1) node_ok_no_socket [OF none] show ?thesis
        by (rule registry_ok_update)
    qed
  qed
qed

lemma registry_ok_call:
  assumes "registry_ok st" and "call c st = Inr st'" and "\<not> reattach c st"
  shows "registry_ok st'"
proof (cases c)
  case (CallAddIP ip)
  with assms show ?thesis by (auto intro: registry_ok_AddIP)
next
  case (CallOnTCPConnect ip port sock setup_ok)
  with assms show ?thesis by (auto intro: registry_ok_OnTCPConnect)
next
  case (CallSocketUnhealthy k)
  with assms show ?thesis by (auto intro: registry_ok_SocketUnhealthy)
next
  case (CallSocketClosed ip)
  with assms show ?thesis by (auto intro: registry_ok_SocketClosed)
next
  case (CallE133DataReceived header)
  with assms show ?thesis by (auto intro: registry_ok_E133DataReceived)
qed

subsection \<open>Live objects are held by the slots\<close>

lemma live_sockets_append:
  "live_sockets ip (es @ es') = fold (socket_step ip) es' (live_sockets ip es)"
  by (simp add: live_sockets_def)

lemma live_health_checks_append:
  "live_health_checks ip (es @ es') = fold (health_check_step ip) es' (live_health_checks ip es)"
  by (simp add: live_health_checks_def)

lemma held_by_cases: "held_by slot live \<longleftrightarrow> live = [] \<or> (\<exists>x. slot = Some x \<and> live = [x])"
  by (induction slot live rule: held_by.induct) auto

lemma held_by_None: "held_by None live \<longleftrightarrow> live = []"
  by (auto simp add: held_by_cases)

lemma held_by_removeAll: "held_by slot live \<Longrightarrow> held_by slot (removeAll x live)"
  by (auto simp add: held_by_cases split: if_splits)

lemma held_by_deleted:
  "held_by slot live \<Longrightarrow>
   held_by None (case slot of None \<Rightarrow> live | Some x \<Rightarrow> removeAll x live)"
  by (auto simp add: held_by_cases split: option.splits)

lemma held_by_length: "held_by slot live \<Longrightarrow> length live \<le> 1 \<and> set live \<subseteq> set_option slot"
  by (auto simp add: held_by_cases)

lemma tidyI:
  "(\<And>ip. held_by (slot_socket st ip) (live_sockets ip (trace st))) \<Longrightarrow>
   (\<And>ip. held_by (slot_health_check st ip) (live_health_checks ip (trace st))) \<Longrightarrow> tidy st"
  by (simp add: tidy_def)

lemma tidy_sockets: "tidy st \<Longrightarrow> held_by (slot_socket st ip) (live_sockets ip (trace st))"
  by (simp add: tidy_def)

lemma tidy_health_checks:
  "tidy st \<Longrightarrow> held_by (slot_health_check st ip) (live_health_checks ip (trace st))"
  by (simp add: tidy_def)

lemma tidy_fresh: "tidy SimpleE133Monitor"
  by (simp add: tidy_def SimpleE133Monitor_def live_sockets_def live_health_checks_def)

lemma tidy_AddIP:
  assumes "tidy st"
  shows "tidy (AddIP a st)"
proof (cases "m_ip_map st a")
  case None
  have slots: "slot_socket (AddIP a st) ip = slot_socket st ip"
    "slot_health_check (AddIP a st) ip = slot_health_check st ip" for ip
    using None
    by (simp_all add: AddIP_def Let_def slot_socket_def slot_health_check_def NodeTCPState_new_def)
  have live: "live_sockets ip (trace (AddIP a st)) = live_sockets ip (trace st)"
    "live_health_checks ip (trace (AddIP a st)) = live_health_checks ip (trace st)" for ip
    using None
    by (simp_all add: AddIP_def Let_def live_sockets_append live_health_checks_append)
  show ?thesis
    by (rule tidyI) (simp_all add: slots live tidy_sockets [OF assms] tidy_health_checks [OF assms])
next
  case (Some node_state)
  with assms show ?thesis
    by (simp add: AddIP_def)
qed

lemma tidy_E133DataReceived:
  assumes "tidy st"
  shows "tidy (E133DataReceived header st)"
proof -
  have slots: "slot_socket (E133DataReceived header st) ip = slot_socket st ip"
    "slot_health_check (E133DataReceived header st) ip = slot_health_check st ip" for ip
    by (simp_all add: slot_socket_def slot_health_check_def E133DataReceived_map)
  have live: "live_sockets ip (trace (E133DataReceived header st)) = live_sockets ip (trace st)"
    "live_health_checks ip (trace (E133DataReceived header st)) = live_health_checks ip (trace st)"
    for ip
    by (simp_all add: E133DataReceived_def live_sockets_append live_health_checks_append
        split: option.splits)
  show ?thesis
    by (rule tidyI) (simp_all add: slots live tidy_sockets [OF assms] tidy_health_checks [OF assms])
qed

lemma tidy_SocketClosed:
  assumes "tidy st"
  shows "tidy (SocketClosed a st)"
proof (cases "m_ip_map st a")
  case None
  have slots: "slot_socket (SocketClosed a st) ip = slot_socket st ip"
    "slot_health_check (SocketClosed a st) ip = slot_health_check st ip" for ip
    using None by (simp_all add: SocketClosed_def Let_def slot_socket_def slot_health_check_def)
  have live: "live_sockets ip (trace (SocketClosed a st)) = live_sockets ip (trace st)"
    "live_health_checks ip (trace (SocketClosed a st)) = live_health_checks ip (trace st)" for ip
    using None
    by (simp_all add: SocketClosed_def Let_def live_sockets_append live_health_checks_append)
  show ?thesis
    by (rule tidyI) (simp_all add: slots live tidy_sockets [OF assms] tidy_health_checks [OF assms])
next
  case (Some node_state)
  note closed = SocketClosed_tracked [OF Some]
  have sockets: "held_by (slot_socket (SocketClosed a st) ip)
      (live_sockets ip (trace (SocketClosed a st)))" for ip
  proof -
    have live: "live_sockets ip (trace (SocketClosed a st)) =
        (case socket node_state of
           None \<Rightarrow> live_sockets ip (trace st)
         | Some s \<Rightarrow> removeAll s (live_sockets ip (trace st)))"
      by (simp add: closed live_sockets_append delete_health_check_def delete_socket_def
          split: option.splits)
    show ?thesis
    proof (cases "ip = a")
      case True
      with Some have "slot_socket st ip = socket node_state"
        by (simp add: slot_socket_def)
      with tidy_sockets [OF assms, of ip]
      have "held_by None (case socket node_state of
           None \<Rightarrow> live_sockets ip (trace st)
         | Some s \<Rightarrow> removeAll s (live_sockets ip (trace st)))"
        using held_by_deleted [of "socket node_state" "live_sockets ip (trace st)"] by simp
      then show ?thesis
        unfolding live using True by (simp add: closed slot_socket_def)
    next
      case False
      then have "slot_socket (SocketClosed a st) ip = slot_socket st ip"
        by (simp add: closed slot_socket_def)
      with tidy_sockets [OF assms, of ip] show ?thesis
        unfolding live by (simp add: held_by_removeAll split: option.splits)
    qed
  qed
  have health_checks: "held_by (slot_health_check (SocketClosed a st) ip)
      (live_health_checks ip (trace (SocketClosed a st)))" for ip
  proof -
    have live: "live_health_checks ip (trace (SocketClosed a st)) =
        (case health_checked_connection node_state of
           None \<Rightarrow> live_health_checks ip (trace st)
         | Some h \<Rightarrow> removeAll h (live_health_checks ip (trace st)))"
      by (simp add: closed live_health_checks_append delete_health_check_def delete_socket_def
          split: option.splits)
    show ?thesis
    proof (cases "ip = a")
      case True
      with Some have "slot_health_check st ip = health_checked_connection node_state"
        by (simp add: slot_health_check_def)
      with tidy_health_checks [OF assms, of ip]
      have "held_by None (case health_checked_connection node_state of
           None \<Rightarrow> live_health_checks ip (trace st)
         | Some h \<Rightarrow> removeAll h (live_health_checks ip (trace st)))"
        using held_by_deleted [of "health_checked_connection node_state"
            "live_health_checks ip (trace st)"] by simp
      then show ?thesis
        unfolding live using True by (simp add: closed slot_health_check_def)
    next
      case False
      then have "slot_health_check (SocketClosed a st) ip = slot_health_check st ip"
        by (simp add: closed slot_health_check_def)
      with tidy_health_checks [OF assms, of ip] show ?thesis
        unfolding live by (simp add: held_by_removeAll split: option.splits)
    qed
  qed
  from sockets health_checks show ?thesis
    by (rule tidyI)
qed

lemma tidy_SocketUnhealthy:
  assumes "tidy st" and "SocketUnhealthy k st = Inr st'"
  shows "tidy st'"
proof (cases "m_ip_map st k")
  case None
  with assms(2) show ?thesis
    by (simp add: SocketUnhealthy_def)
next
  case node: (Some node_state)
  show ?thesis
  proof (cases "socket node_state")
    case None
    with node assms(2) show ?thesis
      by (simp add: SocketUnhealthy_def Let_def)
  next
    case (Some s)
    let ?st1 = "st\<lparr>m_ip_map := (m_ip_map st)(k \<mapsto> node_state\<lparr>health_checked_connection := None\<rparr>),
            trace := trace st @ Log OLA_LOG_INFO ''connection went unhealthy'' #
              delete_health_check (health_checked_connection node_state)\<rparr>"
    from Some node assms(2) have st': "st' = SocketClosed (peer s) ?st1"
      by (simp add: SocketUnhealthy_def Let_def)
    have sockets: "held_by (slot_socket ?st1 ip) (live_sockets ip (trace ?st1))" for ip
    proof -
      have "slot_socket ?st1 ip = slot_socket st ip"
        using node by (simp add: slot_socket_def)
      moreover have "live_sockets ip (trace ?st1) = live_sockets ip (trace st)"
        by (simp add: live_sockets_append delete_health_check_def split: option.splits)
      ultimately show ?thesis
        using tidy_sockets [OF assms(1), of ip] by simp
    qed
    have health_checks: "held_by (slot_health_check ?st1 ip) (live_health_checks ip (trace ?st1))"
      for ip
    proof -
      have live: "live_health_checks ip (trace ?st1) =
          (case health_checked_connection node_state of
             None \<Rightarrow> live_health_checks ip (trace st)
           | Some h \<Rightarrow> removeAll h (live_health_checks ip (trace st)))"
        by (simp add: live_health_checks_append delete_health_check_def split: option.splits)
      show ?thesis
      proof (cases "ip = k")
        case True
        with node have "slot_health_check st ip = health_checked_connection node_state"
          by (simp add: slot_health_check_def)
        with tidy_health_checks [OF assms(1), of ip]
        have "held_by None (case health_checked_connection node_state of
             None \<Rightarrow> live_health_checks ip (trace st)
           | Some h \<Rightarrow> removeAll h (live_health_checks ip (trace st)))"
          using held_by_deleted [of "health_checked_connection node_state"
              "live_health_checks ip (trace st)"] by simp
        then show ?thesis
          unfolding live using True by (simp add: slot_health_check_def)
      next
        case False
        then have "slot_health_check ?st1 ip = slot_health_check st ip"
          by (simp add: slot_health_check_def)
        with tidy_health_checks [OF assms(1), of ip] show ?thesis
          unfolding live by (simp add: held_by_removeAll split: option.splits)
      qed
    qed
    from sockets health_checks have "tidy ?st1"
      by (rule tidyI)
    then show ?thesis
      unfolding st' by (rule tidy_SocketClosed)
  qed
qed

lemma tidy_OnTCPConnect:
  assumes "tidy st" and "OnTCPConnect a port sock setup_ok st = Inr st'"
    and "\<not> reattach (CallOnTCPConnect a port sock setup_ok) st"
  shows "tidy st'"
proof (cases "m_ip_map st a")
  case None
  with assms(2) have map: "m_ip_map st' = m_ip_map st"
    and events: "trace st' = trace st @ Log OLA_LOG_FATAL ''Unable to locate socket for '' #
      (case sock of None \<Rightarrow> [] | Some s \<Rightarrow> [SocketClose s, DeleteSocket s])"
    by (auto simp add: OnTCPConnect_def)
  have "held_by (slot_socket st' ip) (live_sockets ip (trace st'))" for ip
    using tidy_sockets [OF assms(1), of ip]
    by (simp add: events map slot_socket_def live_sockets_append held_by_removeAll
        split: option.splits)
  moreover have "held_by (slot_health_check st' ip) (live_health_checks ip (trace st'))" for ip
    using tidy_health_checks [OF assms(1), of ip]
    by (simp add: events map slot_health_check_def live_health_checks_append
        split: option.splits)
  ultimately show ?thesis
    by (rule tidyI)
next
  case node: (Some node_state)
  from node assms(3) have empty: "socket node_state = None"
    "health_checked_connection node_state = None"
    by simp_all
  from node empty have slots: "slot_socket st a = None" "slot_health_check st a = None"
    by (simp_all add: slot_socket_def slot_health_check_def)
  from slots tidy_sockets [OF assms(1), of a] tidy_health_checks [OF assms(1), of a]
  have none_live: "live_sockets a (trace st) = []" "live_health_checks a (trace st) = []"
    by (simp_all add: held_by_None)
  show ?thesis
  proof (cases sock)
    case None
    with node assms(2) show ?thesis
      by (simp add: OnTCPConnect_def Let_def split: if_splits)
  next
    case (Some s)
    let ?hc = "\<lparr>hc_id = hc_allocated st, hc_socket = Some s, hc_node = a\<rparr>"
    show ?thesis
    proof (cases setup_ok)
      case True
      with node Some empty assms(2) have
        map: "m_ip_map st' = (m_ip_map st)(a \<mapsto>
                  node_state\<lparr>socket := Some s, health_checked_connection := Some ?hc\<rparr>)"
        and events: "trace st' = trace st @
          [NewHealthCheck ?hc, SetOnClose s a, SetOnData s, AddReadDescriptor s]"
        by (auto simp add: OnTCPConnect_def Let_def)
      have "held_by (slot_socket st' ip) (live_sockets ip (trace st'))" for ip
        using tidy_sockets [OF assms(1), of ip] none_live
        by (auto simp add: events map slot_socket_def live_sockets_append)
      moreover have "held_by (slot_health_check st' ip) (live_health_checks ip (trace st'))" for ip
        using tidy_health_checks [OF assms(1), of ip] none_live
        by (auto simp add: events map slot_health_check_def live_health_checks_append)
      ultimately show ?thesis
        by (rule tidyI)
    next
      case False
      with node Some empty assms(2) have
        map: "m_ip_map st' = (m_ip_map st)(a \<mapsto> node_state\<lparr>socket := None\<rparr>)"
        and events: "trace st' = trace st @
          [NewHealthCheck ?hc, Log OLA_LOG_WARN ''Failed to setup heartbeat controller for '',
           DeleteHealthCheck ?hc, SocketClose s, DeleteSocket s]"
        by (auto simp add: OnTCPConnect_def Let_def)
      have "held_by (slot_socket st' ip) (live_sockets ip (trace st'))" for ip
        using tidy_sockets [OF assms(1), of ip] node empty
        by (auto simp add: events map slot_socket_def live_sockets_append held_by_removeAll)
      moreover have "held_by (slot_health_check st' ip) (live_health_checks ip (trace st'))" for ip
        using tidy_health_checks [OF assms(1), of ip] node empty none_live
        by (auto simp add: events map slot_health_check_def live_health_checks_append
            held_by_removeAll)
      ultimately show ?thesis
        by (rule tidyI)
    qed
  qed
qed

lemma tidy_call:
  assumes "tidy st" and "call c st = Inr st'" and "\<not> reattach c st"
  shows "tidy st'"
proof (cases c)
  case (CallAddIP ip)
  with assms show ?thesis by (auto intro: tidy_AddIP)
next
  case (CallOnTCPConnect ip port sock setup_ok)
  with assms show ?thesis by (auto intro: tidy_OnTCPConnect)
next
  case (CallSocketUnhealthy k)
  with assms show ?thesis by (auto intro: tidy_SocketUnhealthy)
next
  case (CallSocketClosed ip)
  with assms show ?thesis by (auto intro: tidy_SocketClosed)
next
  case (CallE133DataReceived header)
  with assms show ?thesis by (auto intro: tidy_E133DataReceived)
qed

lemma invariants_run:
  "registry_ok st \<Longrightarrow> tidy st \<Longrightarrow> admissible cs st \<Longrightarrow> run cs st = Inr st' \<Longrightarrow>
   registry_ok st' \<and> tidy st'"
proof (induction cs arbitrary: st)
  case Nil
  then show ?case by simp
next
  case (Cons c cs)
  from Cons.prems(4) obtain st1 where step: "call c st = Inr st1" and rest: "run cs st1 = Inr st'"
    by (auto split: sum.splits)
  from Cons.prems(3) step have ok: "\<not> reattach c st" and adm: "admissible cs st1"
    by simp_all
  from registry_ok_call [OF Cons.prems(1) step ok] tidy_call [OF Cons.prems(2) step ok] adm rest
  show ?case
    by (rule Cons.IH)
qed

text \<open>
  C3, as the code has it. Take any sequence of \<^verbatim>\<open>AddIP\<close>, \<^verbatim>\<open>OnTCPConnect\<close>,
  \<^verbatim>\<open>SocketUnhealthy\<close>, \<^verbatim>\<open>SocketClosed\<close> and \<^verbatim>\<open>E133DataReceived\<close> calls on a fresh monitor that
  runs without a fault and in which \<^verbatim>\<open>OnTCPConnect\<close> is delivered only for addresses whose
  entry has neither a socket nor a health-checked connection attached. Afterwards, for
  every entry: if it has a health-checked connection it has a socket; at most one socket
  attached to it is live (attached and not deleted since), and a live one is the socket
  its slot points at; at most one health-checked connection constructed for it is live
  (constructed and not deleted since), and a live one is the one its slot points at.
\<close>

theorem registry_invariant:
  assumes "admissible cs SimpleE133Monitor"
    and "run cs SimpleE133Monitor = Inr st"
    and "m_ip_map st ip = Some node_state"
  shows "(health_checked_connection node_state \<noteq> None \<longrightarrow> socket node_state \<noteq> None)
       \<and> length (live_sockets ip (trace st)) \<le> 1
       \<and> set (live_sockets ip (trace st)) \<subseteq> set_option (socket node_state)
       \<and> length (live_health_checks ip (trace st)) \<le> 1
       \<and> set (live_health_checks ip (trace st)) \<subseteq>
           set_option (health_checked_connection node_state)"
proof -
  from invariants_run [OF registry_ok_fresh tidy_fresh assms(1) assms(2)]
  have ok: "registry_ok st" and tidy: "tidy st"
    by simp_all
  from ok assms(3) have "node_ok node_state"
    by (simp add: registry_ok_def)
  then have paired:
    "health_checked_connection node_state \<noteq> None \<longrightarrow> socket node_state \<noteq> None"
    by (auto simp add: node_ok_def split: option.splits)
  from assms(3) have "slot_socket st ip = socket node_state"
    "slot_health_check st ip = health_checked_connection node_state"
    by (simp_all add: slot_socket_def slot_health_check_def)
  with tidy_sockets [OF tidy, of ip] tidy_health_checks [OF tidy, of ip]
  have sockets: "held_by (socket node_state) (live_sockets ip (trace st))"
    and health_checks:
      "held_by (health_checked_connection node_state) (live_health_checks ip (trace st))"
    by simp_all
  from paired held_by_length [OF sockets] held_by_length [OF health_checks] show ?thesis
    by simp
qed

theorem registry_invariant_witness:
  "admissible [CallAddIP 1, CallAddIP 2, CallOnTCPConnect 1 5569 (Some example_socket) True,
               CallE133DataReceived \<lparr>SourceIP = 1, Transport = TCP\<rparr>,
               CallOnTCPConnect 2 5569 (Some \<lparr>sock_id = 1, peer = 2\<rparr>) False,
               CallSocketUnhealthy 1,
               CallOnTCPConnect 1 5569 (Some \<lparr>sock_id = 2, peer = 1\<rparr>) True] SimpleE133Monitor
   \<and> (\<exists>st. run [CallAddIP 1, CallAddIP 2, CallOnTCPConnect 1 5569 (Some example_socket) True,
               CallE133DataReceived \<lparr>SourceIP = 1, Transport = TCP\<rparr>,
               CallOnTCPConnect 2 5569 (Some \<lparr>sock_id = 1, peer = 2\<rparr>) False,
               CallSocketUnhealthy 1,
               CallOnTCPConnect 1 5569 (Some \<lparr>sock_id = 2, peer = 1\<rparr>) True]
              SimpleE133Monitor = Inr st
        \<and> m_ip_map st 1 =
            Some \<lparr>socket = Some \<lparr>sock_id = 2, peer = 1\<rparr>,
                  health_checked_connection =
                    Some \<lparr>hc_id = 2, hc_socket = Some \<lparr>sock_id = 2, peer = 1\<rparr>, hc_node = 1\<rparr>,
                  connection_attempts = 1\<rparr>
        \<and> live_sockets 1 (trace st) = [\<lparr>sock_id = 2, peer = 1\<rparr>]
        \<and> live_health_checks 1 (trace st) =
            [\<lparr>hc_id = 2, hc_socket = Some \<lparr>sock_id = 2, peer = 1\<rparr>, hc_node = 1\<rparr>]
        \<and> length (live_sockets 1 (trace st)) \<le> 1
        \<and> length (live_health_checks 1 (trace st)) \<le> 1)"
proof -
  let ?cs = "[CallAddIP 1, CallAddIP 2, CallOnTCPConnect 1 5569 (Some example_socket) True,
               CallE133DataReceived \<lparr>SourceIP = 1, Transport = TCP\<rparr>,
               CallOnTCPConnect 2 5569 (Some \<lparr>sock_id = 1, peer = 2\<rparr>) False,
               CallSocketUnhealthy 1,
               CallOnTCPConnect 1 5569 (Some \<lparr>sock_id = 2, peer = 1\<rparr>) True]"
  let ?node = "\<lparr>socket = Some \<lparr>sock_id = 2, peer = 1\<rparr>,
                  health_checked_connection =
                    Some \<lparr>hc_id = 2, hc_socket = Some \<lparr>sock_id = 2, peer = 1\<rparr>, hc_node = 1\<rparr>,
                  connection_attempts = 1\<rparr>"
  have ran: "\<exists>st. run ?cs SimpleE133Monitor = Inr st \<and> m_ip_map st 1 = Some ?node
      \<and> live_sockets 1 (trace st) = [\<lparr>sock_id = 2, peer = 1\<rparr>]
      \<and> live_health_checks 1 (trace st) =
            [\<lparr>hc_id = 2, hc_socket = Some \<lparr>sock_id = 2, peer = 1\<rparr>, hc_node = 1\<rparr>]"
    by (simp add: AddIP_def OnTCPConnect_def SocketUnhealthy_def SocketClosed_def
        E133DataReceived_def SimpleE133Monitor_def NodeTCPState_new_def Let_def
        delete_health_check_def delete_socket_def example_socket_def
        live_sockets_def live_health_checks_def)
  then obtain st where st: "run ?cs SimpleE133Monitor = Inr st" "m_ip_map st 1 = Some ?node"
    and live: "live_sockets 1 (trace st) = [\<lparr>sock_id = 2, peer = 1\<rparr>]"
      "live_health_checks 1 (trace st) =
            [\<lparr>hc_id = 2, hc_socket = Some \<lparr>sock_id = 2, peer = 1\<rparr>, hc_node = 1\<rparr>]"
    by blast
  have adm: "admissible ?cs SimpleE133Monitor"
    by (simp add: AddIP_def OnTCPConnect_def SocketUnhealthy_def SocketClosed_def
        E133DataReceived_def SimpleE133Monitor_def NodeTCPState_new_def Let_def
        delete_health_check_def delete_socket_def example_socket_def)
  from registry_invariant [OF adm st] adm st live show ?thesis
    by blast
qed

text \<open>
  Against C3 as stated, three sequences on a fresh monitor.
  A successful \<^verbatim>\<open>OnTCPConnect\<close> and then one for the same address whose \<^verbatim>\<open>Setup()\<close> fails:
  the failure branch resets the socket slot only, so the entry keeps the first
  health-checked connection and has no socket.
  Two successful \<^verbatim>\<open>OnTCPConnect\<close> for the same address: the slots are overwritten and
  nothing is deleted, so two sockets and two health-checked connections of the entry are
  live.
  A successful \<^verbatim>\<open>OnTCPConnect\<close> with a socket whose peer is another, untracked address,
  then \<^verbatim>\<open>SocketUnhealthy\<close> (which looks the peer up and finds no entry, so the socket stays
  attached), then a second successful \<^verbatim>\<open>OnTCPConnect\<close>: two sockets of the entry are live.
\<close>

theorem registry_invariant_counterexample:
  "entry_after [CallAddIP 7, CallOnTCPConnect 7 5569 (Some \<lparr>sock_id = 0, peer = 7\<rparr>) True,
                CallOnTCPConnect 7 5569 (Some \<lparr>sock_id = 1, peer = 7\<rparr>) False] 7 =
     Inr (Some \<lparr>socket = None,
                health_checked_connection =
                  Some \<lparr>hc_id = 0, hc_socket = Some \<lparr>sock_id = 0, peer = 7\<rparr>, hc_node = 7\<rparr>,
                connection_attempts = 1\<rparr>)
   \<and> \<not> node_ok \<lparr>socket = None,
                health_checked_connection =
                  Some \<lparr>hc_id = 0, hc_socket = Some \<lparr>sock_id = 0, peer = 7\<rparr>, hc_node = 7\<rparr>,
                connection_attempts = 1\<rparr>
   \<and> map_sum id (live_sockets 7)
        (trace_after [CallAddIP 7,
                      CallOnTCPConnect 7 5569 (Some \<lparr>sock_id = 0, peer = 7\<rparr>) True,
                      CallOnTCPConnect 7 5569 (Some \<lparr>sock_id = 1, peer = 7\<rparr>) True]) =
       Inr [\<lparr>sock_id = 0, peer = 7\<rparr>, \<lparr>sock_id = 1, peer = 7\<rparr>]
   \<and> map_sum id (live_health_checks 7)
        (trace_after [CallAddIP 7,
                      CallOnTCPConnect 7 5569 (Some \<lparr>sock_id = 0, peer = 7\<rparr>) True,
                      CallOnTCPConnect 7 5569 (Some \<lparr>sock_id = 1, peer = 7\<rparr>) True]) =
       Inr [\<lparr>hc_id = 0, hc_socket = Some \<lparr>sock_id = 0, peer = 7\<rparr>, hc_node = 7\<rparr>,
            \<lparr>hc_id = 1, hc_socket = Some \<lparr>sock_id = 1, peer = 7\<rparr>, hc_node = 7\<rparr>]
   \<and> map_sum id (live_sockets 7)
        (trace_after [CallAddIP 7,
                      CallOnTCPConnect 7 5569 (Some \<lparr>sock_id = 0, peer = 9\<rparr>) True,
                      CallSocketUnhealthy 7,
                      CallOnTCPConnect 7 5569 (Some \<lparr>sock_id = 1, peer = 7\<rparr>) True]) =
       Inr [\<lparr>sock_id = 0, peer = 9\<rparr>, \<lparr>sock_id = 1, peer = 7\<rparr>]"
  by (simp add: entry_after_def trace_after_def AddIP_def OnTCPConnect_def SocketUnhealthy_def
      SocketClosed_def SimpleE133Monitor_def NodeTCPState_new_def Let_def node_ok_def
      delete_health_check_def delete_socket_def live_sockets_def live_health_checks_def)

section \<open>Received data\<close>

text \<open>
  C10. When the transport of the header is not TCP, or its source address has no entry, or
  the entry has no health-checked connection, \<^verbatim>\<open>E133DataReceived\<close> calls
  \<^verbatim>\<open>HeartbeatReceived()\<close> on nothing and leaves the map as it was.
\<close>

theorem E133DataReceived_not_notified:
  assumes "Transport header \<noteq> TCP
         \<or> m_ip_map st (SourceIP header) = None
         \<or> (\<exists>node_state. m_ip_map st (SourceIP header) = Some node_state
               \<and> health_checked_connection node_state = None)"
  shows "m_ip_map (E133DataReceived header st) = m_ip_map st
       \<and> heartbeats_received (events_since st (E133DataReceived header st)) = []"
  using assms
  by (auto simp add: E133DataReceived_def events_since_def split: option.splits)

theorem E133DataReceived_not_notified_witness:
  "Transport \<lparr>SourceIP = 1, Transport = UDP\<rparr> \<noteq> TCP
   \<and> m_ip_map example_connected 3 = None
   \<and> m_ip_map example_connected 2 =
       Some \<lparr>socket = None, health_checked_connection = None, connection_attempts = 1\<rparr>
   \<and> heartbeats_received (events_since example_connected
        (E133DataReceived \<lparr>SourceIP = 1, Transport = UDP\<rparr> example_connected)) = []
   \<and> heartbeats_received (events_since example_connected
        (E133DataReceived \<lparr>SourceIP = 3, Transport = TCP\<rparr> example_connected)) = []
   \<and> heartbeats_received (events_since example_connected
        (E133DataReceived \<lparr>SourceIP = 2, Transport = TCP\<rparr> example_connected)) = []
   \<and> m_ip_map (E133DataReceived \<lparr>SourceIP = 1, Transport = UDP\<rparr> example_connected) =
       m_ip_map example_connected
   \<and> heartbeats_received (events_since example_connected
        (E133DataReceived \<lparr>SourceIP = 1, Transport = TCP\<rparr> example_connected)) =
       [example_health_check]"
proof -
  have udp: "Transport \<lparr>SourceIP = 1, Transport = UDP\<rparr> \<noteq> TCP"
    by simp
  have untracked: "m_ip_map example_connected 3 = None"
    by (simp add: example_connected_def)
  have idle: "m_ip_map example_connected 2 =
      Some \<lparr>socket = None, health_checked_connection = None, connection_attempts = 1\<rparr>"
    by (simp add: example_connected_def)
  have notified: "heartbeats_received (events_since example_connected
        (E133DataReceived \<lparr>SourceIP = 1, Transport = TCP\<rparr> example_connected)) =
       [example_health_check]"
    by (simp add: E133DataReceived_def example_connected_def events_since_def)
  from E133DataReceived_not_notified [of "\<lparr>SourceIP = 1, Transport = UDP\<rparr>" example_connected]
    E133DataReceived_not_notified [of "\<lparr>SourceIP = 3, Transport = TCP\<rparr>" example_connected]
    E133DataReceived_not_notified [of "\<lparr>SourceIP = 2, Transport = TCP\<rparr>" example_connected]
    udp untracked idle notified
  show ?thesis by simp
qed

section \<open>Dispatch of decoded frames\<close>

lemma events_since_same [simp]: "events_since st st = []"
  by (simp add: events_since_def)

text \<open>
  C2, as the code has it, for the terminal layer modelled from the spec. For a frame on
  endpoint 0, \<^verbatim>\<open>HeartbeatReceived()\<close> is called exactly when the frame is recognised as a
  heartbeat frame, arrived over TCP, and its source address has an entry with a
  health-checked connection attached; it is then called once, on that connection. A
  heartbeat frame is never forwarded to the handler \<^verbatim>\<open>EndpointRequest\<close>; every other frame
  is forwarded once and notifies no health-checked connection. The map does not change.
\<close>

theorem TerminalLayer_dispatch:
  assumes "Endpoint (e133_header f) = 0"
  shows "heartbeats_received (events_since st (TerminalLayer f st)) =
           (if heartbeat f \<and> Transport (transport_header f) = TCP
            then (case m_ip_map st (SourceIP (transport_header f)) of
                    None \<Rightarrow> []
                  | Some node_state \<Rightarrow>
                      (case health_checked_connection node_state of
                         None \<Rightarrow> []
                       | Some hc \<Rightarrow> [hc]))
            else [])
       \<and> forwarded (events_since st (TerminalLayer f st)) = (if heartbeat f then 0 else 1)
       \<and> m_ip_map (TerminalLayer f st) = m_ip_map st"
  using assms
  by (simp add: TerminalLayer_def E133DataReceived_def EndpointRequest_def forwarded_def
      split: option.splits)

theorem TerminalLayer_dispatch_witness:
  "Endpoint (e133_header \<lparr>transport_header = \<lparr>SourceIP = 1, Transport = TCP\<rparr>,
                           e133_header = \<lparr>Endpoint = 0\<rparr>, heartbeat = True,
                           raw_request = []\<rparr>) = 0
   \<and> heartbeats_received (events_since example_connected
        (TerminalLayer \<lparr>transport_header = \<lparr>SourceIP = 1, Transport = TCP\<rparr>,
                        e133_header = \<lparr>Endpoint = 0\<rparr>, heartbeat = True,
                        raw_request = []\<rparr> example_connected)) = [example_health_check]
   \<and> forwarded (events_since example_connected
        (TerminalLayer \<lparr>transport_header = \<lparr>SourceIP = 1, Transport = TCP\<rparr>,
                        e133_header = \<lparr>Endpoint = 0\<rparr>, heartbeat = True,
                        raw_request = []\<rparr> example_connected)) = 0
   \<and> heartbeats_received (events_since example_connected
        (TerminalLayer \<lparr>transport_header = \<lparr>SourceIP = 1, Transport = TCP\<rparr>,
                        e133_header = \<lparr>Endpoint = 0\<rparr>, heartbeat = False,
                        raw_request = ''rdm''\<rparr> example_connected)) = []
   \<and> forwarded (events_since example_connected
        (TerminalLayer \<lparr>transport_header = \<lparr>SourceIP = 1, Transport = TCP\<rparr>,
                        e133_header = \<lparr>Endpoint = 0\<rparr>, heartbeat = False,
                        raw_request = ''rdm''\<rparr> example_connected)) = 1"
proof -
  have tracked: "m_ip_map example_connected 1 =
      Some \<lparr>socket = Some example_socket,
            health_checked_connection = Some example_health_check,
            connection_attempts = 1\<rparr>"
    by (simp add: example_connected_def)
  from TerminalLayer_dispatch [of "\<lparr>transport_header = \<lparr>SourceIP = 1, Transport = TCP\<rparr>,
                        e133_header = \<lparr>Endpoint = 0\<rparr>, heartbeat = True,
                        raw_request = []\<rparr>" example_connected]
    TerminalLayer_dispatch [of "\<lparr>transport_header = \<lparr>SourceIP = 1, Transport = TCP\<rparr>,
                        e133_header = \<lparr>Endpoint = 0\<rparr>, heartbeat = False,
                        raw_request = ''rdm''\<rparr>" example_connected]
    tracked
  show ?thesis by simp
qed

text \<open>
  Against C2 as stated: a frame recognised as a heartbeat frame that arrived over UDP, from
  an address whose entry has a health-checked connection attached. \<^verbatim>\<open>E133DataReceived\<close>
  returns at its transport check and \<^verbatim>\<open>HeartbeatReceived()\<close> is not called.
\<close>

theorem heartbeat_dispatch_counterexample:
  "heartbeat \<lparr>transport_header = \<lparr>SourceIP = 1, Transport = UDP\<rparr>,
              e133_header = \<lparr>Endpoint = 0\<rparr>, heartbeat = True, raw_request = []\<rparr>
   \<and> m_ip_map example_connected 1 =
       Some \<lparr>socket = Some example_socket,
             health_checked_connection = Some example_health_check,
             connection_attempts = 1\<rparr>
   \<and> heartbeats_received (events_since example_connected
        (TerminalLayer \<lparr>transport_header = \<lparr>SourceIP = 1, Transport = UDP\<rparr>,
                        e133_header = \<lparr>Endpoint = 0\<rparr>, heartbeat = True,
                        raw_request = []\<rparr> example_connected)) = []"
  by (simp add: TerminalLayer_def E133DataReceived_def example_connected_def)

section \<open>Backoff\<close>

text \<open>
  C8, for the policy modelled from the spec with the bounds of the monitor (5 seconds and
  60 seconds), under the linear and under the exponential law. From the first attempt on
  the delay is positive, it does not decrease when the attempt count grows, and it never
  exceeds the maximum.
\<close>

theorem m_backoff_policy_bounds:
  assumes "1 \<le> n" and "n \<le> m"
  shows "0 < m_backoff_policy law n
       \<and> m_backoff_policy law n \<le> m_backoff_policy law m
       \<and> m_backoff_policy law m \<le> MAX_TCP_RETRY_DELAY"
proof -
  have pos: "0 < growth law n"
    using assms by (cases law) simp_all
  have mono: "growth law n \<le> growth law m"
    using assms by (cases law) (simp_all add: power_increasing)
  have init: "0 < INITIAL_TCP_RETRY_DELAY" and lim: "0 < MAX_TCP_RETRY_DELAY"
    by (simp_all add: INITIAL_TCP_RETRY_DELAY_def MAX_TCP_RETRY_DELAY_def TimeInterval_def)
  have "0 < INITIAL_TCP_RETRY_DELAY * growth law n"
    using init pos by simp
  moreover have "INITIAL_TCP_RETRY_DELAY * growth law n \<le> INITIAL_TCP_RETRY_DELAY * growth law m"
    using init mono by (simp add: mult_left_mono)
  ultimately show ?thesis
    using lim by (simp add: m_backoff_policy_def NextDelay_def min_def)
qed

theorem m_backoff_policy_bounds_witness:
  "(1::nat) \<le> 2 \<and> (2::nat) \<le> 13
   \<and> m_backoff_policy Linear 2 = 10000000 \<and> m_backoff_policy Linear 13 = 60000000
   \<and> m_backoff_policy Exponential 2 = 10000000 \<and> m_backoff_policy Exponential 13 = 60000000
   \<and> 0 < m_backoff_policy Linear 2
   \<and> m_backoff_policy Linear 2 \<le> m_backoff_policy Linear 13
   \<and> m_backoff_policy Linear 13 \<le> MAX_TCP_RETRY_DELAY
   \<and> 0 < m_backoff_policy Exponential 2
   \<and> m_backoff_policy Exponential 2 \<le> m_backoff_policy Exponential 13
   \<and> m_backoff_policy Exponential 13 \<le> MAX_TCP_RETRY_DELAY"
proof -
  have a: "(1::nat) \<le> 2" and b: "(2::nat) \<le> 13"
    by simp_all
  have delays: "m_backoff_policy Linear 2 = 10000000" "m_backoff_policy Linear 13 = 60000000"
      "m_backoff_policy Exponential 2 = 10000000" "m_backoff_policy Exponential 13 = 60000000"
    by (simp_all add: m_backoff_policy_def NextDelay_def INITIAL_TCP_RETRY_DELAY_def
        MAX_TCP_RETRY_DELAY_def TimeInterval_def)
  from m_backoff_policy_bounds [OF a b, of Linear] m_backoff_policy_bounds [OF a b, of Exponential]
    delays
  show ?thesis by simp
qed

section \<open>Start-up with a manual target list\<close>

lemma StringSplit_not_empty: "StringSplit s d \<noteq> []"
  by (induction s) (auto split: list.splits)

lemma parse_targets_all:
  "(\<forall>t \<in> set ts. FromString t \<noteq> None) \<Longrightarrow>
   parse_targets FromString ts targets = Inr (targets @ map (\<lambda>t. the (FromString t)) ts)"
  by (induction ts arbitrary: targets) auto

lemma parse_targets_invalid:
  "\<exists>t \<in> set ts. FromString t = None \<Longrightarrow> \<exists>t. parse_targets FromString ts targets = Inl t"
  by (induction ts arbitrary: targets) (auto split: option.splits)

lemma AddIP_Discover: "Discover \<in> set (trace (AddIP ip st)) \<longleftrightarrow> Discover \<in> set (trace st)"
  by (auto simp add: AddIP_def Let_def split: option.splits)

lemma AddIP_AddEndpoint:
  "AddEndpoint x \<in> set (trace (AddIP ip st)) \<longleftrightarrow>
   AddEndpoint x \<in> set (trace st) \<or> (x = ip \<and> m_ip_map st ip = None)"
  by (auto simp add: AddIP_def Let_def split: option.splits)

lemma fold_AddIP_dom: "dom (m_ip_map (fold AddIP ts st)) = dom (m_ip_map st) \<union> set ts"
  by (induction ts arbitrary: st) (auto simp add: AddIP_dom)

lemma fold_AddIP_Discover:
  "Discover \<in> set (trace (fold AddIP ts st)) \<longleftrightarrow> Discover \<in> set (trace st)"
  by (induction ts arbitrary: st) (simp_all add: AddIP_Discover)

lemma fold_AddIP_AddEndpoint:
  "AddEndpoint x \<in> set (trace (fold AddIP ts st)) \<longleftrightarrow>
   AddEndpoint x \<in> set (trace st) \<or> (x \<in> set ts \<and> m_ip_map st x = None)"
proof (induction ts arbitrary: st)
  case Nil
  then show ?case by simp
next
  case (Cons t ts)
  have "m_ip_map (AddIP t st) x = None \<longleftrightarrow> x \<noteq> t \<and> m_ip_map st x = None"
    by (auto simp add: AddIP_def Let_def split: option.splits)
  then show ?case
    by (auto simp add: Cons.IH AddIP_AddEndpoint)
qed

text \<open>
  C9, as the code has it, for a non-empty \<^verbatim>\<open>--targets\<close> argument. If some token does not
  parse, \<^verbatim>\<open>main\<close> prints the usage and exits (with status 0) before any call to the
  connector. If every token parses and start-up goes on (no \<^verbatim>\<open>--help\<close>, and
  \<^verbatim>\<open>pid_helper.Init()\<close> and \<^verbatim>\<open>monitor.Init()\<close> succeed), the event loop is entered
  without discovery having been asked for, and the addresses tracked, and the addresses the
  connector was asked to connect to, are exactly the parsed ones.
\<close>

theorem main_manual_targets:
  assumes "target_addresses opts \<noteq> []"
  shows "((\<exists>t \<in> set (StringSplit (target_addresses opts) CHR '',''). FromString t = None) \<longrightarrow>
            (\<exists>es. main FromString pid_helper_init_ok slp_init_ok opts = Exit 0 es
               \<and> DisplayHelp \<in> set es \<and> (\<forall>ip. AddEndpoint ip \<notin> set es)))
       \<and> ((\<forall>t \<in> set (StringSplit (target_addresses opts) CHR '',''). FromString t \<noteq> None)
            \<and> \<not> opt_help opts \<and> pid_helper_init_ok \<and> slp_init_ok \<longrightarrow>
            (\<exists>monitor. main FromString pid_helper_init_ok slp_init_ok opts = Run monitor
               \<and> Discover \<notin> set (trace monitor)
               \<and> dom (m_ip_map monitor) =
                   {ip. \<exists>t \<in> set (StringSplit (target_addresses opts) CHR '',''). FromString t = Some ip}
               \<and> {ip. AddEndpoint ip \<in> set (trace monitor)} =
                   {ip. \<exists>t \<in> set (StringSplit (target_addresses opts) CHR '',''). FromString t = Some ip}))"
proof (intro conjI impI)
  let ?tokens = "StringSplit (target_addresses opts) CHR '',''"
  assume "\<exists>t \<in> set ?tokens. FromString t = None"
  then obtain t where "parse_targets FromString ?tokens [] = Inl t"
    using parse_targets_invalid by blast
  with assms show "\<exists>es. main FromString pid_helper_init_ok slp_init_ok opts = Exit 0 es
      \<and> DisplayHelp \<in> set es \<and> (\<forall>ip. AddEndpoint ip \<notin> set es)"
    by (simp add: main_def)
next
  let ?tokens = "StringSplit (target_addresses opts) CHR '',''"
  let ?targets = "map (\<lambda>t. the (FromString t)) ?tokens"
  let ?m = "SimpleE133Monitor\<lparr>trace := trace SimpleE133Monitor @ [SlpStart]\<rparr>"
  assume a: "(\<forall>t \<in> set ?tokens. FromString t \<noteq> None)
      \<and> \<not> opt_help opts \<and> pid_helper_init_ok \<and> slp_init_ok"
  then have parsed: "parse_targets FromString ?tokens [] = Inr ?targets"
    using parse_targets_all [of ?tokens FromString "[]"] by simp
  have some: "?targets \<noteq> []"
    by (simp add: StringSplit_not_empty)
  from a assms parsed some have run: "main FromString pid_helper_init_ok slp_init_ok opts =
      Run (fold AddIP ?targets ?m)"
    by (simp add: main_def Init_def)
  have targets: "set ?targets = {ip. \<exists>t \<in> set ?tokens. FromString t = Some ip}"
    using a by force
  have "Discover \<notin> set (trace (fold AddIP ?targets ?m))"
    by (simp add: fold_AddIP_Discover SimpleE133Monitor_def)
  moreover have "dom (m_ip_map (fold AddIP ?targets ?m)) = set ?targets"
    by (simp add: fold_AddIP_dom SimpleE133Monitor_def)
  moreover have "{ip. AddEndpoint ip \<in> set (trace (fold AddIP ?targets ?m))} = set ?targets"
    by (simp add: fold_AddIP_AddEndpoint SimpleE133Monitor_def)
  ultimately show "\<exists>monitor. main FromString pid_helper_init_ok slp_init_ok opts = Run monitor
               \<and> Discover \<notin> set (trace monitor)
               \<and> dom (m_ip_map monitor) =
                   {ip. \<exists>t \<in> set ?tokens. FromString t = Some ip}
               \<and> {ip. AddEndpoint ip \<in> set (trace monitor)} =
                   {ip. \<exists>t \<in> set ?tokens. FromString t = Some ip}"
    unfolding run targets [symmetric] by blast
qed

theorem main_manual_targets_witness:
  "target_addresses (example_options ''10.0.0.1,10.0.0.2'') \<noteq> []
   \<and> map example_FromString (StringSplit ''10.0.0.1,10.0.0.2'' CHR '','') =
       [Some 0x0A000001, Some 0x0A000002]
   \<and> map example_FromString (StringSplit ''10.0.0.1,localhost'' CHR '','') =
       [Some 0x0A000001, None]
   \<and> main example_FromString True True (example_options ''10.0.0.1,localhost'') =
       Exit 0 [Log OLA_LOG_WARN ''Invalid address '', DisplayHelp]
   \<and> (\<exists>monitor. main example_FromString True True (example_options ''10.0.0.1,10.0.0.2'') =
          Run monitor
        \<and> Discover \<notin> set (trace monitor)
        \<and> dom (m_ip_map monitor) = {0x0A000001, 0x0A000002}
        \<and> trace monitor =
            [SlpStart,
             Log OLA_LOG_INFO ''Opening TCP connection to '', AddEndpoint 0x0A000001,
             Log OLA_LOG_INFO ''Opening TCP connection to '', AddEndpoint 0x0A000002])"
proof -
  have given: "target_addresses (example_options ''10.0.0.1,10.0.0.2'') \<noteq> []"
    "target_addresses (example_options ''10.0.0.1,localhost'') \<noteq> []"
    by (simp_all add: example_options_def)
  have good: "map example_FromString (StringSplit ''10.0.0.1,10.0.0.2'' CHR '','') =
       [Some 0x0A000001, Some 0x0A000002]"
    by (simp add: example_FromString_def)
  have bad: "map example_FromString (StringSplit ''10.0.0.1,localhost'' CHR '','') =
       [Some 0x0A000001, None]"
    by (simp add: example_FromString_def)
  have usage: "main example_FromString True True (example_options ''10.0.0.1,localhost'') =
       Exit 0 [Log OLA_LOG_WARN ''Invalid address '', DisplayHelp]"
    by (simp add: main_def example_options_def example_FromString_def)
  have started: "\<exists>monitor. main example_FromString True True (example_options ''10.0.0.1,10.0.0.2'') =
          Run monitor
        \<and> trace monitor =
            [SlpStart,
             Log OLA_LOG_INFO ''Opening TCP connection to '', AddEndpoint 0x0A000001,
             Log OLA_LOG_INFO ''Opening TCP connection to '', AddEndpoint 0x0A000002]"
    by (simp add: main_def example_options_def example_FromString_def Init_def AddIP_def
        SimpleE133Monitor_def NodeTCPState_new_def Let_def)
  have set: "{ip. \<exists>t \<in> set (StringSplit ''10.0.0.1,10.0.0.2'' CHR '','').
                example_FromString t = Some ip} = {0x0A000001, 0x0A000002}"
    by (auto simp add: example_FromString_def)
  from main_manual_targets [OF given(1), of example_FromString True True]
  have "\<exists>monitor. main example_FromString True True (example_options ''10.0.0.1,10.0.0.2'') =
          Run monitor
        \<and> Discover \<notin> set (trace monitor)
        \<and> dom (m_ip_map monitor) = {0x0A000001, 0x0A000002}"
    using set by (auto simp add: example_options_def example_FromString_def)
  with given good bad usage started show ?thesis
    by auto
qed

text \<open>
  Against C9 as stated: both tokens parse, but \<^verbatim>\<open>pid_helper.Init()\<close> fails, or
  \<^verbatim>\<open>monitor.Init()\<close> does. The process exits with \<^verbatim>\<open>EX_OSFILE\<close>, or \<^verbatim>\<open>EX_UNAVAILABLE\<close>,
  and no address has been added.
\<close>

theorem manual_targets_counterexample:
  "map example_FromString (StringSplit ''10.0.0.1,10.0.0.2'' CHR '','') =
     [Some 0x0A000001, Some 0x0A000002]
   \<and> main example_FromString False True (example_options ''10.0.0.1,10.0.0.2'') =
       Exit EX_OSFILE []
   \<and> main example_FromString True False (example_options ''10.0.0.1,10.0.0.2'') =
       Exit EX_UNAVAILABLE [Log OLA_LOG_WARN ''SlpThread Init() failed'']"
  by (simp add: main_def example_options_def example_FromString_def Init_def
      SimpleE133Monitor_def)

end
